theory Spec2Isabelle
  imports Complex_Main "HOL-Library.AList"
begin

section \<open>Python values, errors and numpy arrays\<close>

text \<open>
  The exceptions the modelled code can raise. In the source none of them is caught: a
  raise inside a method leaves through every caller.
\<close>

datatype error =
  TypeError | ValueError | IndexError | KeyError | AttributeError | OSError | EOFError

text \<open>
  Python is dynamically typed; the constructor arguments that the source passes along
  positionally are either integers or strings.
\<close>

datatype pyval = PyInt int | PyStr string

text \<open>
  A Python float as far as comparison is concerned: IEEE comparison is exact on finite
  values, \<open>nan\<close> compares false with everything.
\<close>

datatype pyfloat = Finite real | PosInf | NegInf | NaN

fun float_lt :: "pyfloat \<Rightarrow> pyfloat \<Rightarrow> bool" where
  "float_lt NaN _ = False"
| "float_lt _ NaN = False"
| "float_lt _ NegInf = False"
| "float_lt NegInf _ = True"
| "float_lt PosInf _ = False"
| "float_lt (Finite a) PosInf = True"
| "float_lt (Finite a) (Finite b) = (a < b)"

text \<open>A two-dimensional numpy array: its shape is \<open>(length rows, ncols)\<close>.\<close>

record 'x array2 =
  ncols :: nat
  rows :: "'x list list"

definition nrows :: "'x array2 \<Rightarrow> nat" where
  "nrows a = length (rows a)"

definition wf_array2 :: "'x array2 \<Rightarrow> bool" where
  "wf_array2 a = list_all (\<lambda>r. length r = ncols a) (rows a)"

text \<open>\<open>numpy.unique\<close> on a one-dimensional array: the sorted distinct values.\<close>

definition np_unique :: "int list \<Rightarrow> int list" where
  "np_unique labels = sort (remdups labels)"

text \<open>
  \<open>features[mask]\<close> with a boolean mask: numpy raises IndexError when the mask's
  length is not the number of rows.
\<close>

definition boolean_index :: "'x array2 \<Rightarrow> bool list \<Rightarrow> error + 'x array2" where
  "boolean_index a msk =
     (if length msk \<noteq> nrows a then Inl IndexError
      else Inr (a\<lparr>rows := map fst (filter snd (zip (rows a) msk))\<rparr>))"

text \<open>
  \<open>numpy.full(size, value)\<close>: the size must be an integer (or a tuple of them), and
  a negative one is refused.
\<close>

definition np_full :: "pyval \<Rightarrow> 'a \<Rightarrow> error + 'a list" where
  "np_full sz v =
     (case sz of
        PyStr _ \<Rightarrow> Inl TypeError
      | PyInt n \<Rightarrow> if n < 0 then Inl ValueError else Inr (replicate (nat n) v))"

text \<open>
  \<open>numpy.concatenate(arrays, dtype=...)\<close> along axis 0. An empty sequence is refused
  (``need at least one array to concatenate''), and so are two-dimensional arrays whose
  second dimensions differ. The \<open>dtype\<close> cast works on every element.
\<close>

definition np_concatenate2 :: "('x \<Rightarrow> 'y) \<Rightarrow> 'x array2 list \<Rightarrow> error + 'y array2" where
  "np_concatenate2 cast arrays =
     (case arrays of
        [] \<Rightarrow> Inl ValueError
      | a # as \<Rightarrow>
          if list_all (\<lambda>b. ncols b = ncols a) as
          then Inr \<lparr>ncols = ncols a, rows = map (map cast) (concat (map rows (a # as)))\<rparr>
          else Inl ValueError)"

definition np_concatenate1 :: "('a \<Rightarrow> 'y) \<Rightarrow> 'a list list \<Rightarrow> error + 'y list" where
  "np_concatenate1 cast arrays =
     (case arrays of
        [] \<Rightarrow> Inl ValueError
      | _ # _ \<Rightarrow> Inr (map cast (concat arrays)))"

text \<open>\<open>os.path.join\<close> (posixpath): a component that starts with a slash restarts the path.\<close>

definition join_step :: "string \<Rightarrow> string \<Rightarrow> string" where
  "join_step path b =
     (if b \<noteq> [] \<and> hd b = CHR ''/'' then b
      else if path = [] \<or> last path = CHR ''/'' then path @ b
      else path @ ''/'' @ b)"

definition os_path_join :: "pyval \<Rightarrow> pyval list \<Rightarrow> error + string" where
  "os_path_join a ps =
     (case a of
        PyInt _ \<Rightarrow> Inl TypeError
      | PyStr s \<Rightarrow>
          if list_all (\<lambda>p. case p of PyStr _ \<Rightarrow> True | PyInt _ \<Rightarrow> False) ps
          then Inr (foldl join_step s (map (\<lambda>p. case p of PyStr t \<Rightarrow> t | PyInt _ \<Rightarrow> []) ps))
          else Inl TypeError)"

section \<open>The libraries the rehearsal store calls\<close>

text \<open>
  An array of fitted parameters with its number of dimensions: what \<open>numpy.mean\<close> and
  \<open>numpy.cov\<close> return and \<open>multivariate_normal\<close> checks.
\<close>

datatype 'x ndarray = NdScalar 'x | NdVector "'x list" | NdMatrix "'x array2"

text \<open>
  The floating-point arithmetic of numpy, scikit-learn's mixture model and the two
  clocks are parameters of the model. \<open>'w\<close> is the state of the world they read and
  change (the clocks, numpy's global random generator), \<open>'x\<close> a floating-point
  scalar and \<open>'g\<close> a fitted \<open>GaussianMixture\<close>. \<open>column_mean\<close> is the mean of
  the values of one column, \<open>column_cov\<close> the sample covariance of two columns,
  \<open>multivariate_normal\<close> the draw once the shapes of mean and covariance have been
  accepted. A routine that can raise returns a sum.
\<close>

record ('w, 'x, 'g) libs =
  process_time :: "'w \<Rightarrow> real \<times> 'w"
  time_time :: "'w \<Rightarrow> real \<times> 'w"
  column_mean :: "'x list \<Rightarrow> 'x"
  column_cov :: "'x list \<Rightarrow> 'x list \<Rightarrow> 'x"
  multivariate_normal :: "'x list \<Rightarrow> 'x array2 \<Rightarrow> nat \<Rightarrow> 'w \<Rightarrow> (error + 'x array2) \<times> 'w"
  GaussianMixture_fit :: "int \<Rightarrow> int option \<Rightarrow> 'x array2 \<Rightarrow> 'w \<Rightarrow> (error + 'g) \<times> 'w"
  bic :: "'g \<Rightarrow> 'x array2 \<Rightarrow> pyfloat"
  sample :: "'g \<Rightarrow> nat \<Rightarrow> 'w \<Rightarrow> (error + 'x array2 \<times> nat list) \<times> 'w"
  float32 :: "'x \<Rightarrow> 'x"
  float32_of_int :: "int \<Rightarrow> 'x"

definition columns :: "'x array2 \<Rightarrow> 'x list list" where
  "columns a = map (\<lambda>j. map (\<lambda>r. r ! j) (rows a)) [0..<ncols a]"

text \<open>\<open>numpy.mean(class_features, axis=0)\<close>: one mean for each column.\<close>

definition np_mean :: "('w, 'x, 'g) libs \<Rightarrow> 'x array2 \<Rightarrow> 'x ndarray" where
  "np_mean L a = NdVector (map (column_mean L) (columns a))"

text \<open>
  \<open>numpy.cov(class_features, rowvar=False)\<close>: the covariance of every pair of
  columns. \<open>numpy.cov\<close> ends with \<open>squeeze\<close>, so for a single column the result is
  not a 1 by 1 matrix but an array of no dimension. The columns are always the
  variables, as in numpy 2; numpy before 2.0 reads an array of a single row as one
  variable, whatever \<open>rowvar\<close> says. The two agree on every class of two rows or
  more, which is what the runs of the Gaussian variant below use.
\<close>

definition np_cov :: "('w, 'x, 'g) libs \<Rightarrow> 'x array2 \<Rightarrow> 'x ndarray" where
  "np_cov L a =
     (case columns a of
        [c] \<Rightarrow> NdScalar (column_cov L c c)
      | cs \<Rightarrow> NdMatrix \<lparr>ncols = ncols a,
                        rows = map (\<lambda>ci. map (\<lambda>cj. column_cov L ci cj) cs) cs\<rparr>)"

text \<open>
  \<open>numpy.random.multivariate_normal(mean, cov, size)\<close> first refuses, with ValueError,
  a mean that is not one-dimensional, a covariance that is not a square matrix and a
  covariance of another length than the mean; then it needs \<open>size\<close> to be a
  non-negative integer. \<open>GaussianMixture.sample(n_samples)\<close> wants at least one
  sample.
\<close>

definition call_multivariate_normal ::
  "('w, 'x, 'g) libs \<Rightarrow> 'x ndarray \<Rightarrow> 'x ndarray \<Rightarrow> pyval \<Rightarrow> 'w \<Rightarrow> (error + 'x array2) \<times> 'w" where
  "call_multivariate_normal L mean cov sz w =
     (case (mean, cov) of
        (NdVector m, NdMatrix c) \<Rightarrow>
          if nrows c = ncols c \<and> length m = nrows c then
            (case sz of
               PyStr _ \<Rightarrow> (Inl TypeError, w)
             | PyInt n \<Rightarrow>
                 if n < 0 then (Inl ValueError, w) else multivariate_normal L m c (nat n) w)
          else (Inl ValueError, w)
      | _ \<Rightarrow> (Inl ValueError, w))"

definition call_sample ::
  "('w, 'x, 'g) libs \<Rightarrow> 'g \<Rightarrow> pyval \<Rightarrow> 'w \<Rightarrow> (error + 'x array2 \<times> nat list) \<times> 'w" where
  "call_sample L gmm sz w =
     (case sz of
        PyStr _ \<Rightarrow> (Inl TypeError, w)
      | PyInt n \<Rightarrow> if n < 1 then (Inl ValueError, w) else sample L gmm (nat n) w)"

section \<open>The class \<open>Rehearsal\<close>\<close>

text \<open>
  The attributes \<open>__init__\<close> sets. A Python dict keeps its keys in insertion order and
  an assignment to a key it holds keeps the key's place: an association list under
  \<^const>\<open>AList.update\<close>. \<open>'r\<close> is what a variant stores for a class.
\<close>

record 'r Rehearsal =
  rehearsal :: "(int \<times> 'r) list"
  num_samples_per_class :: pyval
  task_creation_time :: "(nat \<times> real) list"
  task_creation_time_wall :: "(nat \<times> real) list"
  class_creation_time :: "(int \<times> real) list"
  save_path :: string

text \<open>
  \<open>Rehearsal.__init__(self, data_set, num_samples_per_class, path='saves')\<close>. The
  caller that leaves \<open>path\<close> out passes \<open>PyStr ''saves''\<close>.
\<close>

definition Rehearsal_init :: "pyval \<Rightarrow> pyval \<Rightarrow> pyval \<Rightarrow> error + 'r Rehearsal" where
  "Rehearsal_init data_set n path =
     (case os_path_join path [data_set, PyStr ''rehearsal_data.pkl''] of
        Inl e \<Rightarrow> Inl e
      | Inr p \<Rightarrow>
          Inr \<lparr>rehearsal = [], num_samples_per_class = n, task_creation_time = [],
               task_creation_time_wall = [], class_creation_time = [], save_path = p\<rparr>)"

definition new_task_id :: "('r, 'z) Rehearsal_scheme \<Rightarrow> nat" where
  "new_task_id self = length (task_creation_time self)"

text \<open>A labelled data set \<open>{'x': features, 'y': labels}\<close>.\<close>

record 'x task_data =
  data_x :: "'x array2"
  data_y :: "int list"

text \<open>
  The loop of \<open>add_task\<close> over the classes. \<open>add_class\<close> is the variant's method;
  what it and the loop have written to \<open>self\<close> stays written when one of them raises.
\<close>

fun add_task_loop ::
  "('w, 'x, 'g) libs
   \<Rightarrow> (int \<Rightarrow> 'x array2 \<Rightarrow> ('r, 'z) Rehearsal_scheme \<times> 'w
        \<Rightarrow> (error + unit) \<times> ('r, 'z) Rehearsal_scheme \<times> 'w)
   \<Rightarrow> 'x array2 \<Rightarrow> int list \<Rightarrow> int list \<Rightarrow> ('r, 'z) Rehearsal_scheme \<times> 'w
   \<Rightarrow> (error + unit) \<times> ('r, 'z) Rehearsal_scheme \<times> 'w" where
  "add_task_loop L add_class features labels [] (self, w) = (Inr (), self, w)"
| "add_task_loop L add_class features labels (class_id # classes) (self, w) =
     (let (class_start, w1) = process_time L w in
      case boolean_index features (map (\<lambda>l. l = class_id) labels) of
        Inl e \<Rightarrow> (Inl e, self, w1)
      | Inr class_features \<Rightarrow>
          (case add_class class_id class_features (self, w1) of
             (Inl e, self1, w2) \<Rightarrow> (Inl e, self1, w2)
           | (Inr _, self1, w2) \<Rightarrow>
               (let (class_end, w3) = process_time L w2;
                    self2 = self1\<lparr>class_creation_time :=
                      AList.update class_id (class_end - class_start)
                        (class_creation_time self1)\<rparr>
                in add_task_loop L add_class features labels classes (self2, w3))))"

fun add_task ::
  "('w, 'x, 'g) libs
   \<Rightarrow> (int \<Rightarrow> 'x array2 \<Rightarrow> ('r, 'z) Rehearsal_scheme \<times> 'w
        \<Rightarrow> (error + unit) \<times> ('r, 'z) Rehearsal_scheme \<times> 'w)
   \<Rightarrow> 'x task_data \<Rightarrow> ('r, 'z) Rehearsal_scheme \<times> 'w
   \<Rightarrow> (error + unit) \<times> ('r, 'z) Rehearsal_scheme \<times> 'w" where
  "add_task L add_class task_data (self, w) =
     (let (task_start, w1) = process_time L w;
          (task_start_wall, w2) = time_time L w1;
          features = data_x task_data;
          labels = data_y task_data;
          classes = np_unique labels
      in case add_task_loop L add_class features labels classes (self, w2) of
           (Inl e, self1, w3) \<Rightarrow> (Inl e, self1, w3)
         | (Inr _, self1, w3) \<Rightarrow>
             (let (task_end, w4) = process_time L w3;
                  (task_end_wall, w5) = time_time L w4;
                  self2 = self1\<lparr>task_creation_time :=
                    AList.update (new_task_id self1) (task_end - task_start)
                      (task_creation_time self1)\<rparr>;
                  self3 = self2\<lparr>task_creation_time_wall :=
                    AList.update (new_task_id self2) (task_end_wall - task_start_wall)
                      (task_creation_time_wall self2)\<rparr>
              in (Inr (), self3, w5)))"

text \<open>
  \<open>save\<close> and \<open>load\<close>. The file system maps a path to the bytes of the file there;
  \<open>open(path, 'wb')\<close> succeeds where the path can be written (its directory exists:
  the source creates none) and \<open>open(path, 'rb')\<close> where there is a file. \<open>pickle\<close>
  is a parameter: \<open>pickle.dump\<close> of the dict, and \<open>pickle.load\<close>, which refuses
  bytes it cannot read.
\<close>

record 'b filesystem =
  contents :: "string \<Rightarrow> 'b list option"
  writable :: "string \<Rightarrow> bool"

record ('b, 'r) pickle =
  pickle_dumps :: "(int \<times> 'r) list \<Rightarrow> 'b list"
  pickle_loads :: "'b list \<Rightarrow> error + (int \<times> 'r) list"

definition save ::
  "('b, 'r) pickle \<Rightarrow> ('r, 'z) Rehearsal_scheme \<Rightarrow> 'b filesystem
   \<Rightarrow> (error + unit) \<times> 'b filesystem" where
  "save P self fs =
     (if writable fs (save_path self)
      then (Inr (), fs\<lparr>contents :=
              (contents fs)(save_path self \<mapsto> pickle_dumps P (rehearsal self))\<rparr>)
      else (Inl OSError, fs))"

definition load ::
  "('b, 'r) pickle \<Rightarrow> ('r, 'z) Rehearsal_scheme \<Rightarrow> 'b filesystem
   \<Rightarrow> (error + unit) \<times> ('r, 'z) Rehearsal_scheme" where
  "load P self fs =
     (case contents fs (save_path self) of
        None \<Rightarrow> (Inl OSError, self)
      | Some bytes \<Rightarrow>
          (case pickle_loads P bytes of
             Inl e \<Rightarrow> (Inl e, self)
           | Inr d \<Rightarrow> (Inr (), self\<lparr>rehearsal := d\<rparr>)))"

section \<open>The class \<open>GaussianDistribution\<close>\<close>

record 'p GaussianDistribution = "('p \<times> 'p) Rehearsal" +
  class_means :: "'p list"
  class_covariances :: "'p list"

text \<open>
  \<open>GaussianDistribution.__init__(self, data_set, path='saves', **kwargs)\<close> calls
  \<open>super().__init__(data_set, path)\<close>: two positional arguments, so \<open>path\<close> lands
  in the base class's second parameter, \<open>num_samples_per_class\<close>, and the base class's
  own \<open>path\<close> keeps its default.
\<close>

definition GaussianDistribution_init :: "pyval \<Rightarrow> pyval \<Rightarrow> error + 'p GaussianDistribution" where
  "GaussianDistribution_init data_set path =
     (case Rehearsal_init data_set path (PyStr ''saves'') of
        Inl e \<Rightarrow> Inl e
      | Inr self \<Rightarrow> Inr (Rehearsal.extend self (GaussianDistribution.fields [] [])))"

definition GaussianDistribution_add_class ::
  "('w, 'x, 'g) libs \<Rightarrow> int \<Rightarrow> 'x array2
   \<Rightarrow> ('x ndarray \<times> 'x ndarray, 'z) Rehearsal_scheme \<times> 'w
   \<Rightarrow> (error + unit) \<times> ('x ndarray \<times> 'x ndarray, 'z) Rehearsal_scheme \<times> 'w" where
  "GaussianDistribution_add_class L class_id class_features sw =
     (let mean = np_mean L class_features;
          cov = np_cov L class_features
      in (Inr (), (fst sw)\<lparr>rehearsal := AList.update class_id (mean, cov) (rehearsal (fst sw))\<rparr>,
          snd sw))"

fun GaussianDistribution_generate_loop ::
  "('w, 'x, 'g) libs \<Rightarrow> pyval \<Rightarrow> (int \<times> 'x ndarray \<times> 'x ndarray) list
   \<Rightarrow> 'x array2 list \<Rightarrow> int list list \<Rightarrow> 'w
   \<Rightarrow> (error + 'x array2 list \<times> int list list) \<times> 'w" where
  "GaussianDistribution_generate_loop L n [] rehearsal_features rehearsal_labels w =
     (Inr (rehearsal_features, rehearsal_labels), w)"
| "GaussianDistribution_generate_loop L n ((class_id, mean, cov) # items)
       rehearsal_features rehearsal_labels w =
     (case call_multivariate_normal L mean cov n w of
        (Inl e, w1) \<Rightarrow> (Inl e, w1)
      | (Inr samples, w1) \<Rightarrow>
          (case np_full n class_id of
             Inl e \<Rightarrow> (Inl e, w1)
           | Inr full \<Rightarrow>
               GaussianDistribution_generate_loop L n items
                 (rehearsal_features @ [samples]) (rehearsal_labels @ [full]) w1))"

text \<open>The two \<open>numpy.concatenate\<close> calls of the \<open>return\<close>, features first.\<close>

definition concatenate_result ::
  "('w, 'x, 'g) libs \<Rightarrow> 'x array2 list \<Rightarrow> int list list \<Rightarrow> error + 'x array2 \<times> 'x list" where
  "concatenate_result L rehearsal_features rehearsal_labels =
     (case np_concatenate2 (float32 L) rehearsal_features of
        Inl e \<Rightarrow> Inl e
      | Inr features \<Rightarrow>
          (case np_concatenate1 (float32_of_int L) rehearsal_labels of
             Inl e \<Rightarrow> Inl e
           | Inr labels \<Rightarrow> Inr (features, labels)))"

definition GaussianDistribution_generate_rehearsal_data ::
  "('w, 'x, 'g) libs \<Rightarrow> ('x ndarray \<times> 'x ndarray, 'z) Rehearsal_scheme \<Rightarrow> 'w
   \<Rightarrow> (error + 'x array2 \<times> 'x list) \<times> 'w" where
  "GaussianDistribution_generate_rehearsal_data L self w =
     (case GaussianDistribution_generate_loop L (num_samples_per_class self)
             (rehearsal self) [] [] w of
        (Inl e, w1) \<Rightarrow> (Inl e, w1)
      | (Inr (rehearsal_features, rehearsal_labels), w1) \<Rightarrow>
          (concatenate_result L rehearsal_features rehearsal_labels, w1))"

section \<open>The class \<open>GaussianMixtureModel\<close>\<close>

text \<open>
  What is stored for a class is \<open>best_gmm\<close>, which is \<open>None\<close> when no candidate
  took the lead.
\<close>

record 'g GaussianMixtureModel = "'g option Rehearsal" +
  components_range :: "int list"
  seed :: "int option"

text \<open>
  \<open>GaussianMixtureModel.__init__(self, data_set, num_samples_per_class=10,
  components_range=[2, 3, 4], seed=None, path='saves', **kwargs)\<close>.
\<close>

definition GaussianMixtureModel_init ::
  "pyval \<Rightarrow> pyval \<Rightarrow> int list \<Rightarrow> int option \<Rightarrow> pyval \<Rightarrow> error + 'g GaussianMixtureModel" where
  "GaussianMixtureModel_init data_set n comps sd path =
     (case Rehearsal_init data_set n path of
        Inl e \<Rightarrow> Inl e
      | Inr self \<Rightarrow> Inr (Rehearsal.extend self (GaussianMixtureModel.fields comps sd)))"

text \<open>
  The loop of \<open>add_class\<close> over \<open>components_range\<close>, with \<open>best_gmm\<close> and
  \<open>best_score\<close> as it goes. A fit that raises ends the loop with its exception.
\<close>

fun select_loop ::
  "('w, 'x, 'g) libs \<Rightarrow> int option \<Rightarrow> 'x array2 \<Rightarrow> int list \<Rightarrow> 'g option \<times> pyfloat \<Rightarrow> 'w
   \<Rightarrow> (error + 'g option) \<times> 'w" where
  "select_loop L sd class_features [] (best_gmm, best_score) w = (Inr best_gmm, w)"
| "select_loop L sd class_features (n_components # ns) (best_gmm, best_score) w =
     (case GaussianMixture_fit L n_components sd class_features w of
        (Inl e, w1) \<Rightarrow> (Inl e, w1)
      | (Inr gmm, w1) \<Rightarrow>
          (let b = bic L gmm class_features in
           if float_lt b best_score
           then select_loop L sd class_features ns (Some gmm, b) w1
           else select_loop L sd class_features ns (best_gmm, best_score) w1))"

definition GaussianMixtureModel_add_class ::
  "('w, 'x, 'g) libs \<Rightarrow> int \<Rightarrow> 'x array2 \<Rightarrow> 'g GaussianMixtureModel \<times> 'w
   \<Rightarrow> (error + unit) \<times> 'g GaussianMixtureModel \<times> 'w" where
  "GaussianMixtureModel_add_class L class_id class_features sw =
     (case select_loop L (seed (fst sw)) class_features (components_range (fst sw))
             (None, PosInf) (snd sw) of
        (Inl e, w1) \<Rightarrow> (Inl e, fst sw, w1)
      | (Inr best_gmm, w1) \<Rightarrow>
          (Inr (), (fst sw)\<lparr>rehearsal := AList.update class_id best_gmm (rehearsal (fst sw))\<rparr>,
           w1))"

fun GaussianMixtureModel_generate_loop ::
  "('w, 'x, 'g) libs \<Rightarrow> pyval \<Rightarrow> (int \<times> 'g option) list
   \<Rightarrow> 'x array2 list \<Rightarrow> int list list \<Rightarrow> 'w
   \<Rightarrow> (error + 'x array2 list \<times> int list list) \<times> 'w" where
  "GaussianMixtureModel_generate_loop L n [] rehearsal_data rehearsal_labels w =
     (Inr (rehearsal_data, rehearsal_labels), w)"
| "GaussianMixtureModel_generate_loop L n ((class_id, None) # items)
       rehearsal_data rehearsal_labels w = (Inl AttributeError, w)"
| "GaussianMixtureModel_generate_loop L n ((class_id, Some gmm) # items)
       rehearsal_data rehearsal_labels w =
     (case call_sample L gmm n w of
        (Inl e, w1) \<Rightarrow> (Inl e, w1)
      | (Inr (samples, _), w1) \<Rightarrow>
          (case np_full n class_id of
             Inl e \<Rightarrow> (Inl e, w1)
           | Inr full \<Rightarrow>
               GaussianMixtureModel_generate_loop L n items
                 (rehearsal_data @ [samples]) (rehearsal_labels @ [full]) w1))"

definition GaussianMixtureModel_generate_rehearsal_data ::
  "('w, 'x, 'g) libs \<Rightarrow> 'g GaussianMixtureModel \<Rightarrow> 'w
   \<Rightarrow> (error + 'x array2 \<times> 'x list) \<times> 'w" where
  "GaussianMixtureModel_generate_rehearsal_data L self w =
     (case GaussianMixtureModel_generate_loop L (num_samples_per_class self)
             (rehearsal self) [] [] w of
        (Inl e, w1) \<Rightarrow> (Inl e, w1)
      | (Inr (rehearsal_data, rehearsal_labels), w1) \<Rightarrow>
          (concatenate_result L rehearsal_data rehearsal_labels, w1))"

section \<open>The classes as Python sees them\<close>

text \<open>
  The three classes of \<open>rehearsal.py\<close>. A class body lists the names it defines;
  the flag says whether the definition carries \<open>@abstractmethod\<close>.
\<close>

datatype cls = Rehearsal_cls | GaussianDistribution_cls | GaussianMixtureModel_cls

fun class_body :: "cls \<Rightarrow> (string \<times> bool) list" where
  "class_body Rehearsal_cls =
     [(''__init__'', False), (''new_task_id'', False), (''add_task'', False),
      (''add_class'', True), (''generate_rehearsal_data'', True),
      (''save'', False), (''load'', False)]"
| "class_body GaussianDistribution_cls =
     [(''__init__'', False), (''add_class'', False), (''generate_rehearsal_data'', False)]"
| "class_body GaussianMixtureModel_cls =
     [(''__init__'', False), (''add_class'', False), (''generate_rehearsal_data'', False)]"

text \<open>The method resolution order below \<open>ABC\<close> and \<open>object\<close>, which define none of these names.\<close>

fun mro :: "cls \<Rightarrow> cls list" where
  "mro Rehearsal_cls = [Rehearsal_cls]"
| "mro GaussianDistribution_cls = [GaussianDistribution_cls, Rehearsal_cls]"
| "mro GaussianMixtureModel_cls = [GaussianMixtureModel_cls, Rehearsal_cls]"

definition class_lookup :: "cls \<Rightarrow> string \<Rightarrow> bool option" where
  "class_lookup c name = map_of (concat (map class_body (mro c))) name"

text \<open>
  \<open>__abstractmethods__\<close> as \<open>ABCMeta\<close> computes it: the names declared abstract
  somewhere along the resolution order whose first definition is still abstract.
  \<open>object.__new__\<close> refuses a class that has any.
\<close>

definition abstractmethods :: "cls \<Rightarrow> string list" where
  "abstractmethods c =
     filter (\<lambda>name. class_lookup c name = Some True)
       (remdups (map fst (concat (map class_body (mro c)))))"

definition instantiate :: "cls \<Rightarrow> error + unit" where
  "instantiate c = (if abstractmethods c = [] then Inr () else Inl TypeError)"

text \<open>The attributes \<open>__init__\<close> sets on an instance.\<close>

definition base_attrs :: "string list" where
  "base_attrs =
     [''rehearsal'', ''num_samples_per_class'', ''task_creation_time'',
      ''task_creation_time_wall'', ''class_creation_time'', ''save_path'']"

fun instance_attrs :: "cls \<Rightarrow> string list" where
  "instance_attrs Rehearsal_cls = base_attrs"
| "instance_attrs GaussianDistribution_cls =
     base_attrs @ [''class_means'', ''class_covariances'']"
| "instance_attrs GaussianMixtureModel_cls =
     base_attrs @ [''components_range'', ''seed'']"

definition has_attr :: "cls \<Rightarrow> string \<Rightarrow> bool" where
  "has_attr c name = (name \<in> set (instance_attrs c) \<or> class_lookup c name \<noteq> None)"

text \<open>
  A rehearsal object of any of the three classes. The abstract methods of the base
  class have the body \<open>pass\<close>.
\<close>

datatype ('p, 'g) rehearsal_obj =
  Rehearsal_obj "unit Rehearsal"
| GaussianDistribution_obj "'p GaussianDistribution"
| GaussianMixtureModel_obj "'g GaussianMixtureModel"

fun class_of :: "('p, 'g) rehearsal_obj \<Rightarrow> cls" where
  "class_of (Rehearsal_obj _) = Rehearsal_cls"
| "class_of (GaussianDistribution_obj _) = GaussianDistribution_cls"
| "class_of (GaussianMixtureModel_obj _) = GaussianMixtureModel_cls"

text \<open>\<open>Rehearsal(data_set, save_dir)\<close>: \<open>object.__new__\<close>, then \<open>__init__\<close>.\<close>

definition Rehearsal_new :: "pyval \<Rightarrow> pyval \<Rightarrow> error + ('p, 'g) rehearsal_obj" where
  "Rehearsal_new data_set n =
     (case instantiate Rehearsal_cls of
        Inl e \<Rightarrow> Inl e
      | Inr _ \<Rightarrow>
          (case Rehearsal_init data_set n (PyStr ''saves'') of
             Inl e \<Rightarrow> Inl e
           | Inr self \<Rightarrow> Inr (Rehearsal_obj self)))"

text \<open>
  \<open>obj.name(50)\<close>: an attribute called with one integer. A name the object does not
  have raises AttributeError. Every name it has refuses the call with TypeError: the
  data attributes and the property are not callable, \<open>generate_rehearsal_data\<close>,
  \<open>save\<close> and \<open>load\<close> take no argument, \<open>add_class\<close> takes two, \<open>add_task\<close>
  subscripts its argument and \<open>__init__\<close> joins it into a path.
\<close>

definition call_attr_int :: "('p, 'g) rehearsal_obj \<Rightarrow> string \<Rightarrow> int \<Rightarrow> error + 'a" where
  "call_attr_int obj name arg =
     (if has_attr (class_of obj) name then Inl TypeError else Inl AttributeError)"

fun obj_add_task ::
  "('w, 'x, 'g) libs \<Rightarrow> ('x ndarray, 'g) rehearsal_obj \<Rightarrow> 'x task_data \<Rightarrow> 'w
   \<Rightarrow> (error + unit) \<times> ('x ndarray, 'g) rehearsal_obj \<times> 'w" where
  "obj_add_task L (Rehearsal_obj self) task_data w =
     (case add_task L (\<lambda>class_id class_features sw. (Inr (), sw)) task_data (self, w) of
        (r, self1, w1) \<Rightarrow> (r, Rehearsal_obj self1, w1))"
| "obj_add_task L (GaussianDistribution_obj self) task_data w =
     (case add_task L (GaussianDistribution_add_class L) task_data (self, w) of
        (r, self1, w1) \<Rightarrow> (r, GaussianDistribution_obj self1, w1))"
| "obj_add_task L (GaussianMixtureModel_obj self) task_data w =
     (case add_task L (GaussianMixtureModel_add_class L) task_data (self, w) of
        (r, self1, w1) \<Rightarrow> (r, GaussianMixtureModel_obj self1, w1))"

section \<open>The class \<open>Trainer\<close>\<close>

text \<open>
  The command-line arguments the trainer branches on; the others only travel to the
  collaborators. The model, the optimisers, the data loaders, the epoch and the
  evaluation pass are torch code: parameters here, each free to raise.
\<close>

record args =
  args_n_epochs :: nat
  args_data_set :: pyval
  args_save_dir :: pyval
  args_optimiser :: string
  args_save_model :: bool

record 'x task_splits =
  trn :: "'x task_data"
  val :: "'x task_data"

record ('w, 'x, 'm, 'o, 'l) collaborators =
  DyTox :: "args \<Rightarrow> 'w \<Rightarrow> (error + 'm) \<times> 'w"
  make_optimiser :: "string \<Rightarrow> 'm \<Rightarrow> args \<Rightarrow> 'w \<Rightarrow> (error + 'o) \<times> 'w"
  expand_model :: "args \<Rightarrow> 'm \<Rightarrow> 'w \<Rightarrow> (error + 'm) \<times> 'w"
  freeze_old_params :: "'m \<Rightarrow> 'w \<Rightarrow> (error + 'm) \<times> 'w"
  to_device :: "'m \<Rightarrow> 'w \<Rightarrow> (error + 'm) \<times> 'w"
  DataLoader :: "args \<Rightarrow> 'x task_data \<Rightarrow> 'w \<Rightarrow> (error + 'l) \<times> 'w"
  train_one_epoch :: "nat \<Rightarrow> nat \<Rightarrow> 'l \<Rightarrow> 'm \<times> 'o \<Rightarrow> 'w \<Rightarrow> (error + 'm \<times> 'o) \<times> 'w"
  evaluate :: "'l list \<Rightarrow> 'm \<Rightarrow> 'w \<Rightarrow> (error + unit) \<times> 'w"
  torch_save :: "'m \<Rightarrow> args \<Rightarrow> 'w \<Rightarrow> (error + unit) \<times> 'w"

text \<open>\<open>self.rehearsal\<close> is the field \<open>store\<close>; \<open>self.data\<close> is a dict keyed by task id.\<close>

record ('x, 'p, 'g, 'm, 'o) Trainer =
  data :: "(nat \<times> 'x task_splits) list"
  task_cla :: "nat list"
  class_order :: "int list"
  n_epochs :: nat
  trainer_args :: args
  model :: 'm
  store :: "('p, 'g) rehearsal_obj"
  optimiser :: 'o

definition optimisers :: "(string \<times> string) list" where
  "optimisers = [(''SGD'', ''optim.SGD''), (''Adam'', ''optim.Adam''), (''AdamW'', ''optim.AdamW'')]"

definition Trainer_init ::
  "('w, 'x, 'm, 'o, 'l) collaborators \<Rightarrow> (nat \<times> 'x task_splits) list \<Rightarrow> nat list \<Rightarrow> int list
   \<Rightarrow> args \<Rightarrow> 'w \<Rightarrow> (error + ('x, 'p, 'g, 'm, 'o) Trainer) \<times> 'w" where
  "Trainer_init C dat cla order a w =
     (case DyTox C a w of
        (Inl e, w1) \<Rightarrow> (Inl e, w1)
      | (Inr m, w1) \<Rightarrow>
          (case Rehearsal_new (args_data_set a) (args_save_dir a) of
             Inl e \<Rightarrow> (Inl e, w1)
           | Inr r \<Rightarrow>
               (case map_of optimisers (args_optimiser a) of
                  None \<Rightarrow> (Inl KeyError, w1)
                | Some opt \<Rightarrow>
                    (case make_optimiser C opt m a w1 of
                       (Inl e, w2) \<Rightarrow> (Inl e, w2)
                     | (Inr ob, w2) \<Rightarrow>
                         (Inr \<lparr>data = dat, task_cla = cla, class_order = order,
                               n_epochs = args_n_epochs a, trainer_args = a, model = m,
                               store = r, optimiser = ob\<rparr>, w2)))))"

text \<open>
  Lines 73 to 90 of \<open>train\<close>: what one pass of the task loop does with the rehearsal
  store before the model is trained.
\<close>

definition rehearsal_step ::
  "('w, 'x, 'm, 'o, 'l) collaborators \<Rightarrow> ('w, 'x, 'g) libs \<Rightarrow> nat
   \<Rightarrow> ('x, 'x ndarray, 'g, 'm, 'o) Trainer \<Rightarrow> 'w
   \<Rightarrow> (error + unit) \<times> ('x, 'x ndarray, 'g, 'm, 'o) Trainer \<times> 'w" where
  "rehearsal_step C L task_id self w =
     (if task_id = 0 then
        (case map_of (data self) task_id of
           None \<Rightarrow> (Inl KeyError, self, w)
         | Some d \<Rightarrow>
             (case obj_add_task L (store self) (trn d) w of
                (r, st, w1) \<Rightarrow> (r, self\<lparr>store := st\<rparr>, w1)))
      else
        (case expand_model C (trainer_args self) (model self) w of
           (Inl e, w1) \<Rightarrow> (Inl e, self, w1)
         | (Inr m1, w1) \<Rightarrow>
        (case freeze_old_params C m1 w1 of
           (Inl e, w2) \<Rightarrow> (Inl e, self\<lparr>model := m1\<rparr>, w2)
         | (Inr m2, w2) \<Rightarrow>
        (case map_of (data self) task_id of
           None \<Rightarrow> (Inl KeyError, self\<lparr>model := m2\<rparr>, w2)
         | Some d \<Rightarrow>
        (let task_data = data_x (trn d);
             task_labels = data_y (trn d)
         in
        (case call_attr_int (store self) ''generate_data'' 50 of
           Inl e \<Rightarrow> (Inl e, self\<lparr>model := m2\<rparr>, w2)
         | Inr (rehearsal_data, rehearsal_labels) \<Rightarrow>
        (case np_concatenate2 (\<lambda>v. v) [task_data, rehearsal_data] of
           Inl e \<Rightarrow> (Inl e, self\<lparr>model := m2\<rparr>, w2)
         | Inr augmented_data \<Rightarrow>
        (case np_concatenate1 (\<lambda>v. v) [task_labels, rehearsal_labels] of
           Inl e \<Rightarrow> (Inl e, self\<lparr>model := m2\<rparr>, w2)
         | Inr augmented_labels \<Rightarrow>
        (case obj_add_task L (store self) (trn d) w2 of
           (Inl e, st, w3) \<Rightarrow> (Inl e, self\<lparr>model := m2, store := st\<rparr>, w3)
         | (Inr _, st, w3) \<Rightarrow>
             (Inr (),
              self\<lparr>model := m2, store := st,
                   data := AList.update task_id
                     (d\<lparr>trn := \<lparr>data_x = augmented_data, data_y = augmented_labels\<rparr>\<rparr>)
                     (data self)\<rparr>,
              w3))))))))))"

fun epoch_loop ::
  "('w, 'x, 'm, 'o, 'l) collaborators \<Rightarrow> nat \<Rightarrow> 'l \<Rightarrow> nat list \<Rightarrow> 'm \<times> 'o \<Rightarrow> 'w
   \<Rightarrow> (error + 'm \<times> 'o) \<times> 'w" where
  "epoch_loop C task_id loader [] mo w = (Inr mo, w)"
| "epoch_loop C task_id loader (epoch # epochs) mo w =
     (case train_one_epoch C task_id epoch loader mo w of
        (Inl e, w1) \<Rightarrow> (Inl e, w1)
      | (Inr mo1, w1) \<Rightarrow> epoch_loop C task_id loader epochs mo1 w1)"

text \<open>Lines 92 to 105: the loaders, the epochs and the evaluation of one task.\<close>

definition fit_step ::
  "('w, 'x, 'm, 'o, 'l) collaborators \<Rightarrow> nat \<Rightarrow> ('x, 'p, 'g, 'm, 'o) Trainer \<times> 'l list \<Rightarrow> 'w
   \<Rightarrow> (error + unit) \<times> (('x, 'p, 'g, 'm, 'o) Trainer \<times> 'l list) \<times> 'w" where
  "fit_step C task_id sv w =
     (case to_device C (model (fst sv)) w of
        (Inl e, w1) \<Rightarrow> (Inl e, sv, w1)
      | (Inr m1, w1) \<Rightarrow>
     (case map_of (data (fst sv)) task_id of
        None \<Rightarrow> (Inl KeyError, ((fst sv)\<lparr>model := m1\<rparr>, snd sv), w1)
      | Some d \<Rightarrow>
     (case DataLoader C (trainer_args (fst sv)) (trn d) w1 of
        (Inl e, w2) \<Rightarrow> (Inl e, ((fst sv)\<lparr>model := m1\<rparr>, snd sv), w2)
      | (Inr train_dataloader, w2) \<Rightarrow>
     (case DataLoader C (trainer_args (fst sv)) (val d) w2 of
        (Inl e, w3) \<Rightarrow> (Inl e, ((fst sv)\<lparr>model := m1\<rparr>, snd sv), w3)
      | (Inr val_dataloader, w3) \<Rightarrow>
     (let val_loaders = snd sv @ [val_dataloader] in
     (case epoch_loop C task_id train_dataloader [0..<n_epochs (fst sv)]
             (m1, optimiser (fst sv)) w3 of
        (Inl e, w4) \<Rightarrow> (Inl e, ((fst sv)\<lparr>model := m1\<rparr>, val_loaders), w4)
      | (Inr (m2, o2), w4) \<Rightarrow>
     (case evaluate C val_loaders m2 w4 of
        (r, w5) \<Rightarrow> (r, ((fst sv)\<lparr>model := m2, optimiser := o2\<rparr>, val_loaders), w5))))))))"

fun train_loop ::
  "('w, 'x, 'm, 'o, 'l) collaborators \<Rightarrow> ('w, 'x, 'g) libs \<Rightarrow> nat list
   \<Rightarrow> ('x, 'x ndarray, 'g, 'm, 'o) Trainer \<times> 'l list \<Rightarrow> 'w
   \<Rightarrow> (error + unit) \<times> (('x, 'x ndarray, 'g, 'm, 'o) Trainer \<times> 'l list) \<times> 'w" where
  "train_loop C L [] sv w = (Inr (), sv, w)"
| "train_loop C L (task_id # task_ids) sv w =
     (case rehearsal_step C L task_id (fst sv) w of
        (Inl e, self1, w1) \<Rightarrow> (Inl e, (self1, snd sv), w1)
      | (Inr _, self1, w1) \<Rightarrow>
          (case fit_step C task_id (self1, snd sv) w1 of
             (Inl e, sv2, w2) \<Rightarrow> (Inl e, sv2, w2)
           | (Inr _, sv2, w2) \<Rightarrow> train_loop C L task_ids sv2 w2))"

text \<open>
  \<open>train\<close> up to the end of the task loop; the optional saving that follows it is
  \<^const>\<open>save\<close> and the collaborator's \<^const>\<open>torch_save\<close>.
\<close>

definition Trainer_train ::
  "('w, 'x, 'm, 'o, 'l) collaborators \<Rightarrow> ('w, 'x, 'g) libs
   \<Rightarrow> ('x, 'x ndarray, 'g, 'm, 'o) Trainer \<Rightarrow> 'w
   \<Rightarrow> (error + unit) \<times> ('x, 'x ndarray, 'g, 'm, 'o) Trainer \<times> 'w" where
  "Trainer_train C L self w =
     (case train_loop C L [0..<length (task_cla self)] (self, []) w of
        (r, sv, w1) \<Rightarrow> (r, fst sv, w1))"

section \<open>Stand-ins for the libraries\<close>

text \<open>
  A concrete instance of the library interface, on which the definitions can be run:
  the world is a counter that every clock reading and every draw advances, scalars are
  integers, the mean is the integer mean and every covariance is 0, a fitted mixture is
  its component count with the first row of its data, a fit refuses fewer rows than
  components (as scikit-learn does), and every draw repeats the mean.
\<close>

definition demo_libs :: "(nat, int, int \<times> int list) libs" where
  "demo_libs =
     \<lparr>process_time = (\<lambda>w. (real w, Suc w)),
      time_time = (\<lambda>w. (2 * real w, Suc w)),
      column_mean = (\<lambda>c. sum_list c div int (length c)),
      column_cov = (\<lambda>c1 c2. 0),
      multivariate_normal =
        (\<lambda>mean cov n w. (Inr \<lparr>ncols = length mean, rows = replicate n mean\<rparr>, Suc w)),
      GaussianMixture_fit = (\<lambda>k sd a w.
         if k < 1 \<or> int (nrows a) < k then (Inl ValueError, w)
         else (Inr (k, case rows a of [] \<Rightarrow> replicate (ncols a) 0 | r # _ \<Rightarrow> r), Suc w)),
      bic = (\<lambda>g a. Finite (real_of_int (fst g))),
      sample = (\<lambda>g n w.
         (Inr (\<lparr>ncols = length (snd g), rows = replicate n (snd g)\<rparr>, replicate n 0), Suc w)),
      float32 = (\<lambda>v. v),
      float32_of_int = (\<lambda>k. k)\<rparr>"

text \<open>Collaborators that always succeed, two tasks and the arguments of a run.\<close>

definition demo_collaborators :: "(nat, int, nat, nat, int task_data) collaborators" where
  "demo_collaborators =
     \<lparr>DyTox = (\<lambda>a w. (Inr 1, Suc w)),
      make_optimiser = (\<lambda>name m a w. (Inr 0, w)),
      expand_model = (\<lambda>a m w. (Inr (Suc m), w)),
      freeze_old_params = (\<lambda>m w. (Inr m, w)),
      to_device = (\<lambda>m w. (Inr m, w)),
      DataLoader = (\<lambda>a d w. (Inr d, w)),
      train_one_epoch = (\<lambda>task_id epoch loader mo w. (Inr mo, Suc w)),
      evaluate = (\<lambda>loaders m w. (Inr (), w)),
      torch_save = (\<lambda>m a w. (Inr (), w))\<rparr>"

definition demo_task0 :: "int task_data" where
  "demo_task0 = \<lparr>data_x = \<lparr>ncols = 2, rows = [[1, 2], [3, 4], [5, 6], [7, 8]]\<rparr>,
                 data_y = [0, 1, 0, 1]\<rparr>"

definition demo_task1 :: "int task_data" where
  "demo_task1 = \<lparr>data_x = \<lparr>ncols = 2, rows = [[9, 10], [11, 12]]\<rparr>, data_y = [2, 2]\<rparr>"

definition demo_args :: args where
  "demo_args = \<lparr>args_n_epochs = 1, args_data_set = PyStr ''har'', args_save_dir = PyStr ''saves'',
                args_optimiser = ''SGD'', args_save_model = False\<rparr>"

text \<open>
  A store of each variant as its constructor builds it, a trainer over the two tasks
  that holds the mixture store, and that store after task 0 has been registered.
\<close>

definition demo_mixture :: "(int \<times> int list) GaussianMixtureModel" where
  "demo_mixture =
     projr (GaussianMixtureModel_init (PyStr ''har'') (PyInt 5) [1, 2] None (PyStr ''saves''))"

definition demo_gaussian :: "int ndarray GaussianDistribution" where
  "demo_gaussian = projr (GaussianDistribution_init (PyStr ''har'') (PyInt 5))"

definition demo_trainer :: "(int, int ndarray, int \<times> int list, nat, nat) Trainer" where
  "demo_trainer =
     \<lparr>data = [(0, \<lparr>trn = demo_task0, val = demo_task0\<rparr>),
              (1, \<lparr>trn = demo_task1, val = demo_task1\<rparr>)],
      task_cla = [2, 1], class_order = [0, 1, 2], n_epochs = 1, trainer_args = demo_args,
      model = 1, store = GaussianMixtureModel_obj demo_mixture, optimiser = 0\<rparr>"

definition demo_mixture_after0 :: "(int \<times> int list) GaussianMixtureModel" where
  "demo_mixture_after0 =
     demo_mixture\<lparr>rehearsal := [(0, Some (1, [1, 2])), (1, Some (1, [3, 4]))],
                  class_creation_time := [(0, 3), (1, 3)],
                  task_creation_time := [(0, 10)],
                  task_creation_time_wall := [(1, 20)]\<rparr>"

text \<open>
  A pickle that writes the dict as it is, and a file system with no file in which only
  the store's own path can be written.
\<close>

definition demo_pickle :: "(int \<times> 'r, 'r) pickle" where
  "demo_pickle = \<lparr>pickle_dumps = (\<lambda>d. d), pickle_loads = (\<lambda>bytes. Inr bytes)\<rparr>"

definition demo_fs :: "'b filesystem" where
  "demo_fs = \<lparr>contents = (\<lambda>p. None), writable = (\<lambda>p. p = ''saves/har/rehearsal_data.pkl'')\<rparr>"







text \<open>
  For stating what the two generation loops compute: one loop over the items of the
  dict with the draw for a record as a parameter, and the draw of each variant. Each
  \<open>generate_rehearsal_data\<close> is this loop with its own draw.
\<close>

fun generate_loop ::
  "('r \<Rightarrow> 'w \<Rightarrow> (error + 'x array2) \<times> 'w) \<Rightarrow> pyval \<Rightarrow> (int \<times> 'r) list
   \<Rightarrow> 'x array2 list \<Rightarrow> int list list \<Rightarrow> 'w
   \<Rightarrow> (error + 'x array2 list \<times> int list list) \<times> 'w" where
  "generate_loop draw n [] fs ls w = (Inr (fs, ls), w)"
| "generate_loop draw n ((class_id, r) # items) fs ls w =
     (case draw r w of
        (Inl e, w1) \<Rightarrow> (Inl e, w1)
      | (Inr samples, w1) \<Rightarrow>
          (case np_full n class_id of
             Inl e \<Rightarrow> (Inl e, w1)
           | Inr full \<Rightarrow> generate_loop draw n items (fs @ [samples]) (ls @ [full]) w1))"

definition gaussian_draw ::
  "('w, 'x, 'g) libs \<Rightarrow> pyval \<Rightarrow> 'x ndarray \<times> 'x ndarray \<Rightarrow> 'w \<Rightarrow> (error + 'x array2) \<times> 'w" where
  "gaussian_draw L n r w = call_multivariate_normal L (fst r) (snd r) n w"

definition mixture_draw ::
  "('w, 'x, 'g) libs \<Rightarrow> pyval \<Rightarrow> 'g option \<Rightarrow> 'w \<Rightarrow> (error + 'x array2) \<times> 'w" where
  "mixture_draw L n r w =
     (case r of
        None \<Rightarrow> (Inl AttributeError, w)
      | Some gmm \<Rightarrow>
          (case call_sample L gmm n w of
             (Inl e, w1) \<Rightarrow> (Inl e, w1)
           | (Inr (samples, _), w1) \<Rightarrow> (Inr samples, w1)))"

text \<open>
  The Gaussian store after task 0 has been registered, and a task whose features have a
  single column.
\<close>

definition demo_gaussian_after0 :: "int ndarray GaussianDistribution" where
  "demo_gaussian_after0 =
     demo_gaussian\<lparr>rehearsal :=
        [(0, NdVector [3, 4], NdMatrix \<lparr>ncols = 2, rows = [[0, 0], [0, 0]]\<rparr>),
         (1, NdVector [5, 6], NdMatrix \<lparr>ncols = 2, rows = [[0, 0], [0, 0]]\<rparr>)],
        class_creation_time := [(0, 1), (1, 1)],
        task_creation_time := [(0, 6)],
        task_creation_time_wall := [(1, 12)]\<rparr>"

definition demo_task_one_column :: "int task_data" where
  "demo_task_one_column =
     \<lparr>data_x = \<lparr>ncols = 1, rows = [[1], [2], [3], [4]]\<rparr>, data_y = [0, 0, 1, 1]\<rparr>"





section \<open>Properties\<close>

declare add_task.simps [simp del]

lemmas init_defs = GaussianDistribution_init_def GaussianMixtureModel_init_def Rehearsal_init_def
  os_path_join_def join_step_def Rehearsal.defs GaussianDistribution.defs GaussianMixtureModel.defs

subsection \<open>Construction\<close>

lemma abstractmethods_Rehearsal:
  "abstractmethods Rehearsal_cls = [''add_class'', ''generate_rehearsal_data'']"
  by (simp add: abstractmethods_def class_lookup_def)

lemma Rehearsal_new_raises: "Rehearsal_new ds n = Inl TypeError"
  by (simp add: Rehearsal_new_def instantiate_def abstractmethods_Rehearsal)

text \<open>
  C10. Whatever its arguments, \<open>Trainer.__init__\<close> does not return a trainer. When the
  construction of the model raises, that exception leaves; otherwise the next statement,
  \<open>Rehearsal(args.data_set, args.save_dir)\<close>, raises TypeError, because
  \<open>Rehearsal\<close> still has the abstract methods \<open>add_class\<close> and
  \<open>generate_rehearsal_data\<close>. The two subclasses have none left.
\<close>

theorem Trainer_init_never_succeeds:
  "Trainer_init C dat cla order a w =
     (case DyTox C a w of (Inl e, w1) \<Rightarrow> (Inl e, w1) | (Inr m, w1) \<Rightarrow> (Inl TypeError, w1))
   \<and> isl (fst (Trainer_init C dat cla order a w))
   \<and> abstractmethods Rehearsal_cls = [''add_class'', ''generate_rehearsal_data'']
   \<and> abstractmethods GaussianDistribution_cls = []
   \<and> abstractmethods GaussianMixtureModel_cls = []"
  by (simp add: Trainer_init_def Rehearsal_new_raises abstractmethods_Rehearsal
        split: prod.split sum.split)
     (simp add: abstractmethods_def class_lookup_def)

theorem Trainer_init_never_succeeds_witness:
  "(Trainer_init demo_collaborators [(0, \<lparr>trn = demo_task0, val = demo_task0\<rparr>)] [2] [0, 1]
      demo_args 0 :: (error + (int, int ndarray, int \<times> int list, nat, nat) Trainer) \<times> nat)
     = (Inl TypeError, 1)"
proof -
  have "(Trainer_init demo_collaborators [(0, \<lparr>trn = demo_task0, val = demo_task0\<rparr>)] [2] [0, 1]
      demo_args 0 :: (error + (int, int ndarray, int \<times> int list, nat, nat) Trainer) \<times> nat)
     = (case DyTox demo_collaborators demo_args 0 of
          (Inl e, w1) \<Rightarrow> (Inl e, w1) | (Inr m, w1) \<Rightarrow> (Inl TypeError, w1))"
    by (rule conjunct1 [OF Trainer_init_never_succeeds])
  then show ?thesis
    by (simp add: demo_collaborators_def)
qed

text \<open>
  C9. \<open>GaussianDistribution('har', path='out')\<close>: the store's
  \<open>num_samples_per_class\<close> is the string \<open>'out'\<close>, not a positive integer, and its
  save path is built from the base class's default \<open>'saves'\<close>, not from \<open>'out'\<close>.
\<close>

theorem GaussianDistribution_init_misbinds_path:
  "(GaussianDistribution_init (PyStr ''har'') (PyStr ''out'') :: error + int ndarray GaussianDistribution)
     = Inr \<lparr>rehearsal = [], num_samples_per_class = PyStr ''out'', task_creation_time = [],
            task_creation_time_wall = [], class_creation_time = [],
            save_path = ''saves/har/rehearsal_data.pkl'',
            class_means = [], class_covariances = []\<rparr>"
  by (simp add: init_defs)

subsection \<open>Generation from an empty store\<close>

text \<open>
  C4, as the code has it. On a store whose \<open>rehearsal\<close> dict is empty,
  \<open>generate_rehearsal_data\<close> of either variant raises ValueError: both lists are
  empty when the loop ends, and \<open>numpy.concatenate\<close> refuses an empty list. Nothing
  has been drawn, so the world is as it was.
\<close>

theorem generate_rehearsal_data_empty_raises:
  assumes "rehearsal gd = []" and "rehearsal gm = []"
  shows "GaussianDistribution_generate_rehearsal_data L gd w = (Inl ValueError, w)
       \<and> GaussianMixtureModel_generate_rehearsal_data L gm w = (Inl ValueError, w)"
  using assms
  by (simp add: GaussianDistribution_generate_rehearsal_data_def
      GaussianMixtureModel_generate_rehearsal_data_def concatenate_result_def np_concatenate2_def)

theorem generate_rehearsal_data_empty_raises_witness:
  "GaussianDistribution_generate_rehearsal_data demo_libs
     (projr (GaussianDistribution_init (PyStr ''har'') (PyInt 5))) 0 = (Inl ValueError, 0)
   \<and> GaussianMixtureModel_generate_rehearsal_data demo_libs
     (projr (GaussianMixtureModel_init (PyStr ''har'') (PyInt 5) [2, 3, 4] None (PyStr ''saves'')))
     0 = (Inl ValueError, 0)"
  by (rule generate_rehearsal_data_empty_raises) (simp_all add: init_defs)

text \<open>
  The claim C4 as the specification states it (no error, empty arrays) fails on a
  freshly constructed mixture store.
\<close>

theorem generate_rehearsal_data_empty_counterexample:
  "isl (fst (GaussianMixtureModel_generate_rehearsal_data demo_libs
     (projr (GaussianMixtureModel_init (PyStr ''har'') (PyInt 5) [2, 3, 4] None (PyStr ''saves'')))
     0))"
  by (simp add: init_defs GaussianMixtureModel_generate_rehearsal_data_def
      concatenate_result_def np_concatenate2_def)

subsection \<open>Task registration on the stand-ins\<close>

lemma columns_two:
  "ncols a = 2 \<Longrightarrow> columns a = [map (\<lambda>r. r ! 0) (rows a), map (\<lambda>r. r ! Suc 0) (rows a)]"
  by (simp add: columns_def numeral_2_eq_2)

lemma demo_np_mean:
  "np_mean demo_libs \<lparr>ncols = 2, rows = [[a, b], [c, d]]\<rparr>
     = NdVector [(a + c) div 2, (b + d) div 2]"
  by (simp add: np_mean_def columns_two demo_libs_def)

lemma demo_np_cov:
  "np_cov demo_libs \<lparr>ncols = 2, rows = rs\<rparr> = NdMatrix \<lparr>ncols = 2, rows = [[0, 0], [0, 0]]\<rparr>"
  by (simp add: np_cov_def columns_two demo_libs_def)

lemma demo_gaussian_task0:
  "add_task demo_libs (GaussianDistribution_add_class demo_libs) demo_task0 (demo_gaussian, 0)
     = (Inr (),
        demo_gaussian\<lparr>rehearsal :=
            [(0, NdVector [3, 4], NdMatrix \<lparr>ncols = 2, rows = [[0, 0], [0, 0]]\<rparr>),
             (1, NdVector [5, 6], NdMatrix \<lparr>ncols = 2, rows = [[0, 0], [0, 0]]\<rparr>)],
                      class_creation_time := [(0, 1), (1, 1)],
                      task_creation_time := [(0, 6)],
                      task_creation_time_wall := [(1, 12)]\<rparr>, 8)"
  by (simp add: demo_gaussian_def init_defs boolean_index_def nrows_def
        GaussianDistribution_add_class_def new_task_id_def demo_task0_def
        Let_def np_unique_def add_task.simps demo_np_mean demo_np_cov)
     (simp add: demo_libs_def new_task_id_def)

lemma demo_mixture_task0:
  "add_task demo_libs (GaussianMixtureModel_add_class demo_libs) demo_task0 (demo_mixture, 0)
     = (Inr (), demo_mixture_after0, 12)"
  by (simp add: demo_mixture_def demo_mixture_after0_def init_defs boolean_index_def nrows_def
        GaussianMixtureModel_add_class_def new_task_id_def demo_task0_def demo_libs_def
        Let_def np_unique_def add_task.simps)

text \<open>
  C8. The first \<open>add_task\<close> on a freshly constructed store files its processing time
  under task index 0 and its wall-clock time under task index 1: \<open>new_task_id\<close> is
  read a second time after \<open>task_creation_time\<close> has grown. The wall-clock dict has
  no entry for index 0.
\<close>

theorem add_task_wall_time_index_drifts:
  "(case add_task demo_libs (GaussianDistribution_add_class demo_libs) demo_task0
           (demo_gaussian, 0) of
      (r, self, w) \<Rightarrow>
        r = Inr () \<and> map fst (task_creation_time self) = [0]
        \<and> map fst (task_creation_time_wall self) = [1]
        \<and> map_of (task_creation_time_wall self) 0 = None)"
  by (simp add: demo_gaussian_task0)

subsection \<open>The training loop\<close>

lemma demo_step0:
  "rehearsal_step demo_collaborators demo_libs 0 demo_trainer 0
     = (Inr (), demo_trainer\<lparr>store := GaussianMixtureModel_obj demo_mixture_after0\<rparr>, 12)"
  by (simp add: rehearsal_step_def demo_trainer_def demo_mixture_task0)

lemma demo_fit0:
  "fit_step demo_collaborators 0
      (demo_trainer\<lparr>store := GaussianMixtureModel_obj demo_mixture_after0\<rparr>, []) 12
     = (Inr (), (demo_trainer\<lparr>store := GaussianMixtureModel_obj demo_mixture_after0\<rparr>,
                 [demo_task0]), 13)"
  by (simp add: fit_step_def demo_trainer_def demo_collaborators_def)

lemma demo_step1:
  "rehearsal_step demo_collaborators demo_libs (Suc 0)
      (demo_trainer\<lparr>store := GaussianMixtureModel_obj demo_mixture_after0\<rparr>) 13
     = (Inl AttributeError,
        demo_trainer\<lparr>store := GaussianMixtureModel_obj demo_mixture_after0, model := 2\<rparr>, 13)"
  by (simp add: rehearsal_step_def demo_trainer_def demo_collaborators_def
        call_attr_int_def has_attr_def class_lookup_def base_attrs_def)

text \<open>
  C1. A run over two tasks, every collaborator succeeding: task 0 is registered and
  trained, the model is expanded for task 1, and then \<open>self.rehearsal.generate_data(50)\<close>
  raises AttributeError, since no class of \<open>rehearsal.py\<close> has a
  \<open>generate_data\<close>. No synthetic row is generated, no augmented set is built, task 1
  is never registered, and \<open>self.data\<close> is as it was.
\<close>

theorem Trainer_train_second_task_raises:
  "Trainer_train demo_collaborators demo_libs demo_trainer 0 =
    (Inl AttributeError,
     demo_trainer\<lparr>store := GaussianMixtureModel_obj demo_mixture_after0, model := 2\<rparr>, 13)"
proof -
  have "[0..<length (task_cla demo_trainer)] = [0, Suc 0]"
    by (simp add: demo_trainer_def upt_rec)
  then show ?thesis
    by (simp add: Trainer_train_def demo_step0 demo_fit0 demo_step1)
qed

subsection \<open>Saving and loading\<close>

lemma save_unwritable:
  "\<not> writable fs (save_path self) \<Longrightarrow> save P self fs = (Inl OSError, fs)"
  by (simp add: save_def)

text \<open>
  C7. Where \<open>pickle.load\<close> reads back what \<open>pickle.dump\<close> wrote and the save path
  can be opened for writing, \<open>save\<close> succeeds, and \<open>load\<close> on a store with the same
  save path then succeeds and sets its \<open>rehearsal\<close> dict to the saved one: the same
  class ids in the same order, each with the record that was saved (a mean and a
  covariance in the Gaussian variant, the selected mixture in the other; \<open>'r\<close>
  stands for either). No other attribute of the loading store changes.
\<close>

theorem save_load_roundtrip:
  assumes "\<And>d. pickle_loads P (pickle_dumps P d) = Inr d"
    and "writable fs (save_path self)"
    and "save_path other = save_path self"
  shows "\<exists>fs1. save P self fs = (Inr (), fs1)
           \<and> load P other fs1 = (Inr (), other\<lparr>rehearsal := rehearsal self\<rparr>)
           \<and> map fst (rehearsal (snd (load P other fs1))) = map fst (rehearsal self)"
  using assms by (simp add: save_def load_def)

theorem save_load_roundtrip_witness:
  "fst (save demo_pickle demo_mixture_after0
          (demo_fs :: (int \<times> (int \<times> int list) option) filesystem)) = Inr ()
   \<and> load demo_pickle demo_mixture
        (snd (save demo_pickle demo_mixture_after0
               (demo_fs :: (int \<times> (int \<times> int list) option) filesystem)))
     = (Inr (), demo_mixture\<lparr>rehearsal := [(0, Some (1, [1, 2])), (1, Some (1, [3, 4]))]\<rparr>)"
proof -
  have sp: "save_path demo_mixture_after0 = ''saves/har/rehearsal_data.pkl''"
    "save_path demo_mixture = ''saves/har/rehearsal_data.pkl''"
    by (simp_all add: demo_mixture_after0_def demo_mixture_def init_defs)
  have "\<exists>fs1. save demo_pickle demo_mixture_after0
                 (demo_fs :: (int \<times> (int \<times> int list) option) filesystem) = (Inr (), fs1)
           \<and> load demo_pickle demo_mixture fs1
               = (Inr (), demo_mixture\<lparr>rehearsal := rehearsal demo_mixture_after0\<rparr>)
           \<and> map fst (rehearsal (snd (load demo_pickle demo_mixture fs1)))
               = map fst (rehearsal demo_mixture_after0)"
    by (rule save_load_roundtrip) (simp_all add: sp demo_pickle_def demo_fs_def)
  then obtain fs1 where
    s: "save demo_pickle demo_mixture_after0
          (demo_fs :: (int \<times> (int \<times> int list) option) filesystem) = (Inr (), fs1)"
    and l: "load demo_pickle demo_mixture fs1
               = (Inr (), demo_mixture\<lparr>rehearsal := rehearsal demo_mixture_after0\<rparr>)"
    by blast
  have "rehearsal demo_mixture_after0 = [(0, Some (1, [1, 2])), (1, Some (1, [3, 4]))]"
    by (simp add: demo_mixture_after0_def)
  with s l show ?thesis by simp
qed

subsection \<open>Registering a task\<close>


lemma np_unique_distinct: "distinct (np_unique labels)"
  by (simp add: np_unique_def)




lemma keys_update_filter:
  assumes "cid \<notin> set rest"
  shows "map fst (AList.update cid v r) @ filter (\<lambda>k. k \<notin> fst ` set (AList.update cid v r)) rest
         = map fst r @ filter (\<lambda>k. k \<notin> fst ` set r) (cid # rest)"
proof -
  have eq: "filter (\<lambda>k. k \<notin> fst ` set (AList.update cid v r)) rest
          = filter (\<lambda>k. k \<notin> fst ` set r) rest"
    using assms by (intro filter_cong) (auto simp add: dom_update)
  show ?thesis
    by (simp add: eq update_keys)
qed

lemma add_task_loop_ok:
  assumes H: "\<And>cid cf s w. \<exists>v w'. ac cid cf (s, w)
                 = (Inr (), s\<lparr>rehearsal := AList.update cid v (rehearsal s)\<rparr>, w')"
    and len: "length labels = nrows features"
    and "distinct classes"
  shows "\<exists>s' w'. add_task_loop L ac features labels classes (s, w) = (Inr (), s', w')
           \<and> map fst (rehearsal s')
               = map fst (rehearsal s) @ filter (\<lambda>k. k \<notin> fst ` set (rehearsal s)) classes
           \<and> task_creation_time s' = task_creation_time s
           \<and> task_creation_time_wall s' = task_creation_time_wall s"
  using \<open>distinct classes\<close>
proof (induction classes arbitrary: s w)
  case Nil
  then show ?case by simp
next
  case (Cons cid rest)
  obtain cs w1 where pt: "process_time L w = (cs, w1)"
    by (cases "process_time L w")
  obtain cf where bi: "boolean_index features (map (\<lambda>l. l = cid) labels) = Inr cf"
    using len by (simp add: boolean_index_def)
  obtain v w2 where ac: "ac cid cf (s, w1)
      = (Inr (), s\<lparr>rehearsal := AList.update cid v (rehearsal s)\<rparr>, w2)"
    using H by blast
  obtain ce w3 where pt2: "process_time L w2 = (ce, w3)"
    by (cases "process_time L w2")
  define s2 where "s2 = s\<lparr>rehearsal := AList.update cid v (rehearsal s),
      class_creation_time := AList.update cid (ce - cs) (class_creation_time s)\<rparr>"
  have step: "add_task_loop L ac features labels (cid # rest) (s, w)
      = add_task_loop L ac features labels rest (s2, w3)"
    by (simp add: pt bi ac pt2 s2_def)
  from Cons.prems have "distinct rest" and notin: "cid \<notin> set rest"
    by simp_all
  from Cons.IH [OF \<open>distinct rest\<close>, of s2 w3] obtain s' w' where
    r: "add_task_loop L ac features labels rest (s2, w3) = (Inr (), s', w')"
    and k: "map fst (rehearsal s')
        = map fst (rehearsal s2) @ filter (\<lambda>k. k \<notin> fst ` set (rehearsal s2)) rest"
    and t: "task_creation_time s' = task_creation_time s2"
       "task_creation_time_wall s' = task_creation_time_wall s2"
    by blast
  have "map fst (rehearsal s')
      = map fst (rehearsal s) @ filter (\<lambda>k. k \<notin> fst ` set (rehearsal s)) (cid # rest)"
    using k keys_update_filter [OF notin, of v "rehearsal s"] by (simp add: s2_def)
  with r t step show ?case
    by (simp add: s2_def)
qed

















subsection \<open>A fit that raises\<close>













subsection \<open>Model selection in the mixture variant\<close>









lemma float_lt_PosInf: "float_lt a PosInf \<longleftrightarrow> a \<noteq> NaN \<and> a \<noteq> PosInf"
  by (cases a) simp_all







subsection \<open>Generation from a store that holds classes\<close>

lemma GaussianDistribution_generate_loop_eq:
  "GaussianDistribution_generate_loop L n items fs ls w
     = generate_loop (gaussian_draw L n) n items fs ls w"
proof (induction items arbitrary: fs ls w)
  case Nil
  then show ?case by simp
next
  case (Cons it items)
  obtain cid mean cov where it: "it = (cid, mean, cov)"
    by (cases it)
  show ?case
    by (simp add: it gaussian_draw_def Cons.IH split: prod.split sum.split)
qed

lemma GaussianMixtureModel_generate_loop_eq:
  "GaussianMixtureModel_generate_loop L n items fs ls w
     = generate_loop (mixture_draw L n) n items fs ls w"
proof (induction items arbitrary: fs ls w)
  case Nil
  then show ?case by simp
next
  case (Cons it items)
  obtain cid r where it: "it = (cid, r)"
    by (cases it)
  show ?case
    by (cases r) (simp_all add: it mixture_draw_def Cons.IH split: prod.split sum.split)
qed

lemma generate_loop_blocks:
  assumes "\<And>cid r w. (cid, r) \<in> set items \<Longrightarrow>
             \<exists>a w'. draw r w = (Inr a, w') \<and> nrows a = n \<and> ncols a = d \<and> wf_array2 a"
  shows "\<exists>blocks w'. generate_loop draw (PyInt (int n)) items fs ls w
             = (Inr (fs @ blocks, ls @ map (\<lambda>it. replicate n (fst it)) items), w')
           \<and> length blocks = length items
           \<and> (\<forall>b\<in>set blocks. nrows b = n \<and> ncols b = d \<and> wf_array2 b)
           \<and> list_all2 (\<lambda>it b. \<exists>w1 w2. draw (snd it) w1 = (Inr b, w2)) items blocks"
  using assms
proof (induction items arbitrary: fs ls w)
  case Nil
  then show ?case by simp
next
  case (Cons it items)
  obtain cid r where it: "it = (cid, r)"
    by (cases it)
  from Cons.prems [of cid r w] obtain a w1 where
    d: "draw r w = (Inr a, w1)" and a: "nrows a = n" "ncols a = d" "wf_array2 a"
    by (auto simp add: it)
  have full: "np_full (PyInt (int n)) cid = Inr (replicate n cid)"
    by (simp add: np_full_def)
  have prem: "\<exists>a w'. draw r w = (Inr a, w') \<and> nrows a = n \<and> ncols a = d \<and> wf_array2 a"
    if "(cid, r) \<in> set items" for cid r w
  proof -
    from that have "(cid, r) \<in> set (it # items)"
      by simp
    then show ?thesis
      by (rule Cons.prems)
  qed
  have "\<exists>blocks w'. generate_loop draw (PyInt (int n)) items (fs @ [a]) (ls @ [replicate n cid]) w1
             = (Inr ((fs @ [a]) @ blocks,
                     (ls @ [replicate n cid]) @ map (\<lambda>it. replicate n (fst it)) items), w')
           \<and> length blocks = length items
           \<and> (\<forall>b\<in>set blocks. nrows b = n \<and> ncols b = d \<and> wf_array2 b)
           \<and> list_all2 (\<lambda>it b. \<exists>w1 w2. draw (snd it) w1 = (Inr b, w2)) items blocks"
    by (rule Cons.IH) (erule prem)
  then obtain blocks w' where
    r: "generate_loop draw (PyInt (int n)) items (fs @ [a]) (ls @ [replicate n cid]) w1
          = (Inr ((fs @ [a]) @ blocks,
                  (ls @ [replicate n cid]) @ map (\<lambda>it. replicate n (fst it)) items), w')"
    and l: "length blocks = length items"
    and s: "\<forall>b\<in>set blocks. nrows b = n \<and> ncols b = d \<and> wf_array2 b"
    and p: "list_all2 (\<lambda>it b. \<exists>w1 w2. draw (snd it) w1 = (Inr b, w2)) items blocks"
    by blast
  have run: "generate_loop draw (PyInt (int n)) (it # items) fs ls w
             = (Inr (fs @ (a # blocks), ls @ map (\<lambda>it. replicate n (fst it)) (it # items)), w')"
    by (simp add: it d full r)
  have len: "length (a # blocks) = length (it # items)"
    by (simp add: l)
  have shp: "\<forall>b\<in>set (a # blocks). nrows b = n \<and> ncols b = d \<and> wf_array2 b"
    using a s by simp
  have "\<exists>w1 w2. draw (snd it) w1 = (Inr a, w2)"
    using d by (auto simp add: it)
  then have prov: "list_all2 (\<lambda>it b. \<exists>w1 w2. draw (snd it) w1 = (Inr b, w2))
                     (it # items) (a # blocks)"
    using p by simp
  from run len shp prov show ?case by blast
qed

lemma length_concat_blocks:
  "\<forall>b\<in>set blocks. nrows b = n \<Longrightarrow> length (concat (map rows blocks)) = length blocks * n"
  by (induction blocks) (simp_all add: nrows_def)

lemma concatenate_result_blocks:
  assumes "blocks \<noteq> []" and "length labels = length blocks"
    and "\<forall>b\<in>set blocks. nrows b = n \<and> ncols b = d \<and> wf_array2 b"
  shows "\<exists>F. concatenate_result L blocks labels
             = Inr (F, map (float32_of_int L) (concat labels))
           \<and> nrows F = length blocks * n \<and> ncols F = d \<and> wf_array2 F
           \<and> rows F = map (map (float32 L)) (concat (map rows blocks))"
proof -
  obtain b bs where bl: "blocks = b # bs"
    using assms(1) by (cases blocks) simp_all
  have all: "list_all (\<lambda>c. ncols c = ncols b) bs"
    using assms(3) by (auto simp add: bl list_all_iff)
  have nb: "ncols b = d"
    using assms(3) by (simp add: bl)
  obtain l ls where lb: "labels = l # ls"
    using assms(1,2) by (cases labels) simp_all
  have len: "length (concat (map rows blocks)) = length blocks * n"
    using assms(3) by (intro length_concat_blocks) simp
  have wf: "list_all (\<lambda>r. length r = d) (concat (map rows blocks))"
    using assms(3) by (auto simp add: list_all_iff wf_array2_def)
  define F where "F = \<lparr>ncols = d, rows = map (map (float32 L)) (concat (map rows blocks))\<rparr>"
  have "concatenate_result L blocks labels = Inr (F, map (float32_of_int L) (concat labels))"
    using all nb by (simp add: concatenate_result_def np_concatenate2_def np_concatenate1_def
        bl lb F_def)
  moreover have "nrows F = length blocks * n"
    using len by (simp add: F_def nrows_def)
  moreover have "wf_array2 F"
    using wf by (simp add: F_def wf_array2_def list_all_iff)
  ultimately show ?thesis
    by (auto simp add: F_def)
qed


lemma length_columns: "length (columns a) = ncols a"
  by (simp add: columns_def)

lemma call_multivariate_normal_one_column:
  assumes "ncols a = 1"
  shows "call_multivariate_normal L (np_mean L a) (np_cov L a) sz w = (Inl ValueError, w)"
proof -
  from assms length_columns [of a] obtain c where "columns a = [c]"
    by (cases "columns a") (auto simp add: length_Suc_conv)
  then show ?thesis
    by (simp add: call_multivariate_normal_def np_mean_def np_cov_def)
qed

lemma call_multivariate_normal_fitted:
  assumes "ncols a \<noteq> 1"
  shows "call_multivariate_normal L (np_mean L a) (np_cov L a) (PyInt (int n)) w
     = multivariate_normal L (map (column_mean L) (columns a))
         \<lparr>ncols = ncols a,
          rows = map (\<lambda>ci. map (\<lambda>cj. column_cov L ci cj) (columns a)) (columns a)\<rparr> n w"
proof -
  have "np_cov L a = NdMatrix \<lparr>ncols = ncols a,
          rows = map (\<lambda>ci. map (\<lambda>cj. column_cov L ci cj) (columns a)) (columns a)\<rparr>"
    using assms length_columns [of a]
    by (cases "columns a" rule: list.exhaust; cases "tl (columns a)")
       (auto simp add: np_cov_def split: list.split)
  then show ?thesis
    by (simp add: call_multivariate_normal_def np_mean_def nrows_def length_columns)
qed

lemma length_concat_replicate:
  "length (concat (map (\<lambda>it. replicate n (f it)) items)) = length items * n"
  by (induction items) simp_all

text \<open>
  What both variants return when every draw succeeds. \<open>generate_rehearsal_data\<close>
  takes no count: it draws \<open>num_samples_per_class\<close> rows for each class. Let that
  attribute be a positive
  integer \<open>n\<close>, the dict hold \<open>c\<close> classes, \<open>c\<close> not 0, and the draw for every
  stored record return \<open>n\<close> rows of \<open>d\<close> columns (in the mixture variant the
  record is a fitted model, not \<open>None\<close>). Then the call returns a feature array of
  shape \<open>(c * n, d)\<close> and \<open>c * n\<close> labels; the labels are, class after class in
  the order of the dict, the class id as a float32, \<open>n\<close> times; the feature rows
  are the blocks drawn for the classes, cast to float32, in the same order.
  In the Gaussian variant a record fitted from features with a single column cannot
  be drawn from (\<open>call_multivariate_normal_one_column\<close>), and one fitted from any
  other number of columns passes the shape checks (\<open>call_multivariate_normal_fitted\<close>,
  for the covariance of numpy 2).
\<close>

lemma generate_rehearsal_data_blocks:
  "(0 < n \<and> num_samples_per_class gd = PyInt (int n) \<and> rehearsal gd \<noteq> []
      \<and> (\<forall>it\<in>set (rehearsal gd). \<forall>w. \<exists>a w'.
            call_multivariate_normal L (fst (snd it)) (snd (snd it)) (PyInt (int n)) w
              = (Inr a, w')
            \<and> nrows a = n \<and> ncols a = d \<and> wf_array2 a)
    \<longrightarrow> (\<exists>F labels w' blocks.
          GaussianDistribution_generate_rehearsal_data L gd w = (Inr (F, labels), w')
          \<and> nrows F = length (rehearsal gd) * n \<and> ncols F = d \<and> wf_array2 F
          \<and> length labels = length (rehearsal gd) * n
          \<and> labels = map (float32_of_int L)
                       (concat (map (\<lambda>it. replicate n (fst it)) (rehearsal gd)))
          \<and> length blocks = length (rehearsal gd)
          \<and> (\<forall>b\<in>set blocks. nrows b = n \<and> ncols b = d)
          \<and> rows F = map (map (float32 L)) (concat (map rows blocks))
          \<and> list_all2 (\<lambda>it b. \<exists>w1 w2.
                 call_multivariate_normal L (fst (snd it)) (snd (snd it)) (PyInt (int n)) w1
                   = (Inr b, w2)) (rehearsal gd) blocks))
   \<and> (0 < n \<and> num_samples_per_class gm = PyInt (int n) \<and> rehearsal gm \<noteq> []
      \<and> (\<forall>it\<in>set (rehearsal gm). \<exists>g. snd it = Some g \<and> (\<forall>w. \<exists>a cs w'.
            call_sample L g (PyInt (int n)) w = (Inr (a, cs), w')
            \<and> nrows a = n \<and> ncols a = d \<and> wf_array2 a))
    \<longrightarrow> (\<exists>F labels w' blocks.
          GaussianMixtureModel_generate_rehearsal_data L gm w = (Inr (F, labels), w')
          \<and> nrows F = length (rehearsal gm) * n \<and> ncols F = d \<and> wf_array2 F
          \<and> length labels = length (rehearsal gm) * n
          \<and> labels = map (float32_of_int L)
                       (concat (map (\<lambda>it. replicate n (fst it)) (rehearsal gm)))
          \<and> length blocks = length (rehearsal gm)
          \<and> (\<forall>b\<in>set blocks. nrows b = n \<and> ncols b = d)
          \<and> rows F = map (map (float32 L)) (concat (map rows blocks))
          \<and> list_all2 (\<lambda>it b. \<exists>g cs w1 w2. snd it = Some g
                 \<and> call_sample L g (PyInt (int n)) w1 = (Inr (b, cs), w2))
               (rehearsal gm) blocks))"
proof (intro conjI impI)
  assume a: "0 < n \<and> num_samples_per_class gd = PyInt (int n) \<and> rehearsal gd \<noteq> []
      \<and> (\<forall>it\<in>set (rehearsal gd). \<forall>w. \<exists>a w'.
            call_multivariate_normal L (fst (snd it)) (snd (snd it)) (PyInt (int n)) w
              = (Inr a, w')
            \<and> nrows a = n \<and> ncols a = d \<and> wf_array2 a)"
  define draw where "draw = gaussian_draw L (PyInt (int n))"
  have c: "\<exists>a w'. draw r w = (Inr a, w') \<and> nrows a = n \<and> ncols a = d \<and> wf_array2 a"
    if "(cid, r) \<in> set (rehearsal gd)" for cid r w
    using a that by (fastforce simp add: draw_def gaussian_draw_def)
  have "\<exists>blocks w'. generate_loop draw (PyInt (int n)) (rehearsal gd) [] [] w
             = (Inr ([] @ blocks, [] @ map (\<lambda>it. replicate n (fst it)) (rehearsal gd)), w')
           \<and> length blocks = length (rehearsal gd)
           \<and> (\<forall>b\<in>set blocks. nrows b = n \<and> ncols b = d \<and> wf_array2 b)
           \<and> list_all2 (\<lambda>it b. \<exists>w1 w2. draw (snd it) w1 = (Inr b, w2)) (rehearsal gd) blocks"
    by (rule generate_loop_blocks) (erule c)
  then obtain blocks w' where
    run: "generate_loop draw (PyInt (int n)) (rehearsal gd) [] [] w
             = (Inr (blocks, map (\<lambda>it. replicate n (fst it)) (rehearsal gd)), w')"
    and len: "length blocks = length (rehearsal gd)"
    and shp: "\<forall>b\<in>set blocks. nrows b = n \<and> ncols b = d \<and> wf_array2 b"
    and prov: "list_all2 (\<lambda>it b. \<exists>w1 w2. draw (snd it) w1 = (Inr b, w2)) (rehearsal gd) blocks"
    by auto
  from a len have ne: "blocks \<noteq> []"
    by auto
  from concatenate_result_blocks [OF ne _ shp,
      of "map (\<lambda>it. replicate n (fst it)) (rehearsal gd)" L]
  obtain F where
    cr: "concatenate_result L blocks (map (\<lambda>it. replicate n (fst it)) (rehearsal gd))
           = Inr (F, map (float32_of_int L)
                       (concat (map (\<lambda>it. replicate n (fst it)) (rehearsal gd))))"
    and F: "nrows F = length blocks * n" "ncols F = d" "wf_array2 F"
      "rows F = map (map (float32 L)) (concat (map rows blocks))"
    using len by auto
  have g: "GaussianDistribution_generate_rehearsal_data L gd w
     = (Inr (F, map (float32_of_int L)
                  (concat (map (\<lambda>it. replicate n (fst it)) (rehearsal gd)))), w')"
    using a run cr
    by (simp add: GaussianDistribution_generate_rehearsal_data_def
          GaussianDistribution_generate_loop_eq draw_def)
  have prov': "list_all2 (\<lambda>it b. \<exists>w1 w2.
                 call_multivariate_normal L (fst (snd it)) (snd (snd it)) (PyInt (int n)) w1
                   = (Inr b, w2)) (rehearsal gd) blocks"
    using prov by (simp add: draw_def gaussian_draw_def)
  from g F len shp prov' show "\<exists>F labels w' blocks.
          GaussianDistribution_generate_rehearsal_data L gd w = (Inr (F, labels), w')
          \<and> nrows F = length (rehearsal gd) * n \<and> ncols F = d \<and> wf_array2 F
          \<and> length labels = length (rehearsal gd) * n
          \<and> labels = map (float32_of_int L)
                       (concat (map (\<lambda>it. replicate n (fst it)) (rehearsal gd)))
          \<and> length blocks = length (rehearsal gd)
          \<and> (\<forall>b\<in>set blocks. nrows b = n \<and> ncols b = d)
          \<and> rows F = map (map (float32 L)) (concat (map rows blocks))
          \<and> list_all2 (\<lambda>it b. \<exists>w1 w2.
                 call_multivariate_normal L (fst (snd it)) (snd (snd it)) (PyInt (int n)) w1
                   = (Inr b, w2)) (rehearsal gd) blocks"
    by (intro exI [of _ F] exI [of _ w'] exI [of _ blocks]
          exI [of _ "map (float32_of_int L)
                       (concat (map (\<lambda>it. replicate n (fst it)) (rehearsal gd)))"])
       (simp add: length_concat_replicate)
next
  assume a: "0 < n \<and> num_samples_per_class gm = PyInt (int n) \<and> rehearsal gm \<noteq> []
      \<and> (\<forall>it\<in>set (rehearsal gm). \<exists>g. snd it = Some g \<and> (\<forall>w. \<exists>a cs w'.
            call_sample L g (PyInt (int n)) w = (Inr (a, cs), w')
            \<and> nrows a = n \<and> ncols a = d \<and> wf_array2 a))"
  define draw where "draw = mixture_draw L (PyInt (int n))"
  have c: "\<exists>a w'. draw r w = (Inr a, w') \<and> nrows a = n \<and> ncols a = d \<and> wf_array2 a"
    if "(cid, r) \<in> set (rehearsal gm)" for cid r w
  proof -
    from a that obtain g where r: "r = Some g"
      and s: "\<forall>w. \<exists>a cs w'. call_sample L g (PyInt (int n)) w = (Inr (a, cs), w')
            \<and> nrows a = n \<and> ncols a = d \<and> wf_array2 a"
      by fastforce
    from s obtain a0 cs w0 where "call_sample L g (PyInt (int n)) w = (Inr (a0, cs), w0)"
      "nrows a0 = n" "ncols a0 = d" "wf_array2 a0"
      by blast
    then show ?thesis
      by (simp add: draw_def mixture_draw_def r)
  qed
  have "\<exists>blocks w'. generate_loop draw (PyInt (int n)) (rehearsal gm) [] [] w
             = (Inr ([] @ blocks, [] @ map (\<lambda>it. replicate n (fst it)) (rehearsal gm)), w')
           \<and> length blocks = length (rehearsal gm)
           \<and> (\<forall>b\<in>set blocks. nrows b = n \<and> ncols b = d \<and> wf_array2 b)
           \<and> list_all2 (\<lambda>it b. \<exists>w1 w2. draw (snd it) w1 = (Inr b, w2)) (rehearsal gm) blocks"
    by (rule generate_loop_blocks) (erule c)
  then obtain blocks w' where
    run: "generate_loop draw (PyInt (int n)) (rehearsal gm) [] [] w
             = (Inr (blocks, map (\<lambda>it. replicate n (fst it)) (rehearsal gm)), w')"
    and len: "length blocks = length (rehearsal gm)"
    and shp: "\<forall>b\<in>set blocks. nrows b = n \<and> ncols b = d \<and> wf_array2 b"
    and prov: "list_all2 (\<lambda>it b. \<exists>w1 w2. draw (snd it) w1 = (Inr b, w2)) (rehearsal gm) blocks"
    by auto
  from a len have ne: "blocks \<noteq> []"
    by auto
  from concatenate_result_blocks [OF ne _ shp,
      of "map (\<lambda>it. replicate n (fst it)) (rehearsal gm)" L]
  obtain F where
    cr: "concatenate_result L blocks (map (\<lambda>it. replicate n (fst it)) (rehearsal gm))
           = Inr (F, map (float32_of_int L)
                       (concat (map (\<lambda>it. replicate n (fst it)) (rehearsal gm))))"
    and F: "nrows F = length blocks * n" "ncols F = d" "wf_array2 F"
      "rows F = map (map (float32 L)) (concat (map rows blocks))"
    using len by auto
  have g: "GaussianMixtureModel_generate_rehearsal_data L gm w
     = (Inr (F, map (float32_of_int L)
                  (concat (map (\<lambda>it. replicate n (fst it)) (rehearsal gm)))), w')"
    using a run cr
    by (simp add: GaussianMixtureModel_generate_rehearsal_data_def
          GaussianMixtureModel_generate_loop_eq draw_def)
  have one: "\<exists>g cs w1 w2. r = Some g \<and> call_sample L g (PyInt (int n)) w1 = (Inr (b, cs), w2)"
    if "draw r w1 = (Inr b, w2)" for r b w1 w2
    using that
    by (cases r; cases "call_sample L (the r) (PyInt (int n)) w1")
       (auto simp add: draw_def mixture_draw_def split: sum.splits prod.splits)
  have prov': "list_all2 (\<lambda>it b. \<exists>g cs w1 w2. snd it = Some g
                 \<and> call_sample L g (PyInt (int n)) w1 = (Inr (b, cs), w2))
               (rehearsal gm) blocks"
    using prov by (rule list_all2_mono) (use one in blast)
  from g F len shp prov' show "\<exists>F labels w' blocks.
          GaussianMixtureModel_generate_rehearsal_data L gm w = (Inr (F, labels), w')
          \<and> nrows F = length (rehearsal gm) * n \<and> ncols F = d \<and> wf_array2 F
          \<and> length labels = length (rehearsal gm) * n
          \<and> labels = map (float32_of_int L)
                       (concat (map (\<lambda>it. replicate n (fst it)) (rehearsal gm)))
          \<and> length blocks = length (rehearsal gm)
          \<and> (\<forall>b\<in>set blocks. nrows b = n \<and> ncols b = d)
          \<and> rows F = map (map (float32 L)) (concat (map rows blocks))
          \<and> list_all2 (\<lambda>it b. \<exists>g cs w1 w2. snd it = Some g
                 \<and> call_sample L g (PyInt (int n)) w1 = (Inr (b, cs), w2))
               (rehearsal gm) blocks"
    by (intro exI [of _ F] exI [of _ w'] exI [of _ blocks]
          exI [of _ "map (float32_of_int L)
                       (concat (map (\<lambda>it. replicate n (fst it)) (rehearsal gm)))"])
       (simp add: length_concat_replicate)
qed


lemma demo_gaussian_draw:
  "call_multivariate_normal demo_libs (NdVector [a, b])
      (NdMatrix \<lparr>ncols = 2, rows = [[0, 0], [0, 0]]\<rparr>) (PyInt 5) w
     = (Inr \<lparr>ncols = 2, rows = replicate 5 [a, b]\<rparr>, Suc w)"
  by (simp add: call_multivariate_normal_def nrows_def demo_libs_def)

lemma demo_mixture_draw:
  "call_sample demo_libs (k, [a, b]) (PyInt 5) w
     = (Inr (\<lparr>ncols = 2, rows = replicate 5 [a, b]\<rparr>, replicate 5 0), Suc w)"
  by (simp add: call_sample_def demo_libs_def)

lemma demo_block_shape:
  "nrows \<lparr>ncols = 2, rows = replicate 5 [a, b]\<rparr> = 5"
  "wf_array2 \<lparr>ncols = 2, rows = replicate 5 [a, b]\<rparr>"
  by (simp_all add: nrows_def wf_array2_def list_all_iff)

lemma generate_rehearsal_data_blocks_on_stand_ins:
  "(\<exists>F w'. GaussianDistribution_generate_rehearsal_data demo_libs demo_gaussian_after0 8
             = (Inr (F, replicate 5 0 @ replicate 5 1), w')
          \<and> nrows F = 10 \<and> ncols F = 2)
   \<and> (\<exists>F w'. GaussianMixtureModel_generate_rehearsal_data demo_libs demo_mixture_after0 12
             = (Inr (F, replicate 5 0 @ replicate 5 1), w')
          \<and> nrows F = 10 \<and> ncols F = 2)"
proof -
  have gd: "rehearsal demo_gaussian_after0 =
        [(0, NdVector [3, 4], NdMatrix \<lparr>ncols = 2, rows = [[0, 0], [0, 0]]\<rparr>),
         (1, NdVector [5, 6], NdMatrix \<lparr>ncols = 2, rows = [[0, 0], [0, 0]]\<rparr>)]"
    "num_samples_per_class demo_gaussian_after0 = PyInt (int 5)"
    by (simp_all add: demo_gaussian_after0_def demo_gaussian_def init_defs)
  have gm: "rehearsal demo_mixture_after0 = [(0, Some (1, [1, 2])), (1, Some (1, [3, 4]))]"
    "num_samples_per_class demo_mixture_after0 = PyInt (int 5)"
    by (simp_all add: demo_mixture_after0_def demo_mixture_def init_defs)
  have hd: "\<forall>it\<in>set (rehearsal demo_gaussian_after0). \<forall>w. \<exists>a w'.
            call_multivariate_normal demo_libs (fst (snd it)) (snd (snd it)) (PyInt (int 5)) w
              = (Inr a, w')
            \<and> nrows a = 5 \<and> ncols a = 2 \<and> wf_array2 a"
    by (simp add: gd demo_gaussian_draw demo_block_shape)
  have hm: "\<forall>it\<in>set (rehearsal demo_mixture_after0). \<exists>g. snd it = Some g \<and> (\<forall>w. \<exists>a cs w'.
            call_sample demo_libs g (PyInt (int 5)) w = (Inr (a, cs), w')
            \<and> nrows a = 5 \<and> ncols a = 2 \<and> wf_array2 a)"
    by (simp add: gm demo_mixture_draw demo_block_shape)
  have pd: "0 < (5::nat) \<and> num_samples_per_class demo_gaussian_after0 = PyInt (int 5)
      \<and> rehearsal demo_gaussian_after0 \<noteq> []
      \<and> (\<forall>it\<in>set (rehearsal demo_gaussian_after0). \<forall>w. \<exists>a w'.
            call_multivariate_normal demo_libs (fst (snd it)) (snd (snd it)) (PyInt (int 5)) w
              = (Inr a, w')
            \<and> nrows a = 5 \<and> ncols a = 2 \<and> wf_array2 a)"
    using hd gd(2) by (simp add: gd(1))
  from mp [OF conjunct1 [OF generate_rehearsal_data_blocks [where n = 5 and d = 2
        and gd = demo_gaussian_after0 and L = demo_libs and w = 8]], OF pd]
  obtain F labels w' where
    "GaussianDistribution_generate_rehearsal_data demo_libs demo_gaussian_after0 8
       = (Inr (F, labels), w')"
    "nrows F = length (rehearsal demo_gaussian_after0) * 5" "ncols F = 2"
    "labels = map (float32_of_int demo_libs)
                (concat (map (\<lambda>it. replicate 5 (fst it)) (rehearsal demo_gaussian_after0)))"
    by blast
  then have A: "\<exists>F w'. GaussianDistribution_generate_rehearsal_data demo_libs demo_gaussian_after0 8
             = (Inr (F, replicate 5 0 @ replicate 5 1), w')
          \<and> nrows F = 10 \<and> ncols F = 2"
    by (simp add: gd(1) demo_libs_def)
  have pm: "0 < (5::nat) \<and> num_samples_per_class demo_mixture_after0 = PyInt (int 5)
      \<and> rehearsal demo_mixture_after0 \<noteq> []
      \<and> (\<forall>it\<in>set (rehearsal demo_mixture_after0). \<exists>g. snd it = Some g \<and> (\<forall>w. \<exists>a cs w'.
            call_sample demo_libs g (PyInt (int 5)) w = (Inr (a, cs), w')
            \<and> nrows a = 5 \<and> ncols a = 2 \<and> wf_array2 a))"
    using hm gm(2) by (simp add: gm(1))
  from mp [OF conjunct2 [OF generate_rehearsal_data_blocks [where n = 5 and d = 2
        and gm = demo_mixture_after0 and L = demo_libs and w = 12]], OF pm]
  obtain F labels w' where
    "GaussianMixtureModel_generate_rehearsal_data demo_libs demo_mixture_after0 12
       = (Inr (F, labels), w')"
    "nrows F = length (rehearsal demo_mixture_after0) * 5" "ncols F = 2"
    "labels = map (float32_of_int demo_libs)
                (concat (map (\<lambda>it. replicate 5 (fst it)) (rehearsal demo_mixture_after0)))"
    by blast
  then have B: "\<exists>F w'. GaussianMixtureModel_generate_rehearsal_data demo_libs demo_mixture_after0 12
             = (Inr (F, replicate 5 0 @ replicate 5 1), w')
          \<and> nrows F = 10 \<and> ncols F = 2"
    by (simp add: gm(1) demo_libs_def)
  from A B show ?thesis by blast
qed

lemma replicate5: "replicate 5 x = [x, x, x, x, x]"
  by (simp add: numeral_eq_Suc)

text \<open>
  C2. A Gaussian store built with the count 5 registers a task whose features have one
  column, two classes of two rows each; \<open>generate_rehearsal_data\<close> then raises
  ValueError and returns no arrays, where the claim has an array of shape \<open>(10, 1)\<close>
  and ten labels. \<open>numpy.cov\<close> of a single column has no dimension, \<open>add_class\<close>
  stores it as it is, and \<open>multivariate_normal\<close> wants a square matrix. The mixture
  store on the same task returns the ten rows and the ten labels, class 0 first.
\<close>

theorem GaussianDistribution_generate_one_column_raises:
  "(case add_task demo_libs (GaussianDistribution_add_class demo_libs) demo_task_one_column
           (demo_gaussian, 0) of
      (r, self, w) \<Rightarrow>
        r = Inr () \<and> map fst (rehearsal self) = [0, 1]
        \<and> num_samples_per_class self = PyInt 5
        \<and> GaussianDistribution_generate_rehearsal_data demo_libs self w = (Inl ValueError, w))
   \<and> (case add_task demo_libs (GaussianMixtureModel_add_class demo_libs) demo_task_one_column
           (demo_mixture, 0) of
      (r, self, w) \<Rightarrow>
        r = Inr () \<and> map fst (rehearsal self) = [0, 1]
        \<and> num_samples_per_class self = PyInt 5
        \<and> fst (GaussianMixtureModel_generate_rehearsal_data demo_libs self w)
            = Inr (\<lparr>ncols = 1, rows = [[1], [1], [1], [1], [1], [3], [3], [3], [3], [3]]\<rparr>,
                   [0, 0, 0, 0, 0, 1, 1, 1, 1, 1]))"
proof -
  have c1: "columns \<lparr>ncols = Suc 0, rows = rs\<rparr> = [map (\<lambda>r. r ! 0) rs]" for rs :: "int list list"
    by (simp add: columns_def)
  have g: "(case add_task demo_libs (GaussianDistribution_add_class demo_libs) demo_task_one_column
           (demo_gaussian, 0) of
      (r, self, w) \<Rightarrow>
        r = Inr () \<and> map fst (rehearsal self) = [0, 1]
        \<and> num_samples_per_class self = PyInt 5
        \<and> GaussianDistribution_generate_rehearsal_data demo_libs self w = (Inl ValueError, w))"
    by (simp add: demo_gaussian_def init_defs boolean_index_def nrows_def
        GaussianDistribution_add_class_def new_task_id_def demo_task_one_column_def
        Let_def np_unique_def add_task.simps np_mean_def np_cov_def c1
        GaussianDistribution_generate_rehearsal_data_def call_multivariate_normal_def
        split: prod.split)
  have m: "(case add_task demo_libs (GaussianMixtureModel_add_class demo_libs) demo_task_one_column
           (demo_mixture, 0) of
      (r, self, w) \<Rightarrow>
        r = Inr () \<and> map fst (rehearsal self) = [0, 1]
        \<and> num_samples_per_class self = PyInt 5
        \<and> fst (GaussianMixtureModel_generate_rehearsal_data demo_libs self w)
            = Inr (\<lparr>ncols = 1, rows = [[1], [1], [1], [1], [1], [3], [3], [3], [3], [3]]\<rparr>,
                   [0, 0, 0, 0, 0, 1, 1, 1, 1, 1]))"
    by (simp add: demo_mixture_def init_defs boolean_index_def nrows_def
        GaussianMixtureModel_add_class_def new_task_id_def demo_task_one_column_def demo_libs_def
        Let_def np_unique_def add_task.simps
        GaussianMixtureModel_generate_rehearsal_data_def call_sample_def np_full_def
        concatenate_result_def np_concatenate2_def np_concatenate1_def replicate5)
  from g m show ?thesis
    by (rule conjI)
qed

subsection \<open>The training loop on any collaborators\<close>

text \<open>
  The run on the stand-ins is not special. For every task after the first,
  \<^const>\<open>rehearsal_step\<close> ends in an error whatever the model, the data and the store:
  either a collaborator raises at lines 77 to 78, or the task has no data, or the call of
  \<open>generate_data\<close> raises. So \<open>train\<close> over two or more tasks never returns normally.
\<close>

lemma rehearsal_step_later_task_raises:
  "task_id \<noteq> 0 \<Longrightarrow> isl (fst (rehearsal_step C L task_id self w))"
  by (simp add: rehearsal_step_def call_attr_int_def Let_def
        split: prod.split sum.split option.split)

lemma train_loop_later_tasks_raise:
  assumes "task_ids \<noteq> []" and "0 \<notin> set task_ids"
  shows "isl (fst (train_loop C L task_ids sv w))"
proof -
  from assms obtain t ts where ts: "task_ids = t # ts" and "t \<noteq> 0"
    by (cases task_ids) auto
  then have "isl (fst (rehearsal_step C L t (fst sv) w))"
    by (simp add: rehearsal_step_later_task_raises)
  then show ?thesis
    by (cases "rehearsal_step C L t (fst sv) w")
       (auto simp add: ts split: sum.split)
qed

lemma Trainer_train_two_tasks_raises:
  assumes "2 \<le> length (task_cla self)"
  shows "isl (fst (Trainer_train C L self w))"
proof -
  define n where "n = length (task_cla self)"
  have n2: "2 \<le> n"
    using assms by (simp add: n_def)
  then have "0 < n"
    by simp
  then have ids: "[0..<n] = 0 # [Suc 0..<n]"
    by (rule upt_conv_Cons)
  have ne: "[Suc 0..<n] \<noteq> []" and z: "0 \<notin> set [Suc 0..<n]"
    using n2 by simp_all
  have later: "isl (fst (train_loop C L [Suc 0..<n] sv v))" for sv v
    using ne z by (rule train_loop_later_tasks_raise)
  define R where "R = train_loop C L (0 # [Suc 0..<n]) (self, []) w"
  have "isl (fst (train_loop C L (0 # [Suc 0..<n]) (self, []) w))"
  proof (cases "rehearsal_step C L 0 self w")
    case (fields r self1 w1)
    show ?thesis
    proof (cases r)
      case (Inl e)
      then show ?thesis by (simp add: fields)
    next
      case (Inr u)
      show ?thesis
      proof (cases "fit_step C 0 (self1, []) w1")
        case f: (fields r2 sv2 w2)
        show ?thesis
          using later [of sv2 w2] by (cases r2) (simp_all add: fields Inr f)
      qed
    qed
  qed
  then have "isl (fst R)"
    by (simp only: R_def)
  then show ?thesis
    unfolding Trainer_train_def n_def [symmetric] ids R_def [symmetric]
    by (cases R) simp
qed

subsection \<open>The indices of the timing records on any store\<close>

text \<open>
  Whenever the class loop returns normally and the processing-time dict has no entry
  under the index \<open>new_task_id\<close> yet, \<open>add_task\<close> writes the processing time under
  that index and the wall-clock time under its successor.
\<close>

lemma length_update_new:
  "k \<notin> fst ` set al \<Longrightarrow> length (AList.update k v al) = Suc (length al)"
  by (induction al) auto

lemma add_task_timing_indices:
  assumes H: "\<And>cid cf s w. \<exists>v w'. ac cid cf (s, w)
                 = (Inr (), s\<lparr>rehearsal := AList.update cid v (rehearsal s)\<rparr>, w')"
    and len: "length (data_y t) = nrows (data_x t)"
    and new: "new_task_id s \<notin> fst ` set (task_creation_time s)"
  shows "\<exists>s' w' d1 d2. add_task L ac t (s, w) = (Inr (), s', w')
           \<and> task_creation_time s' = AList.update (new_task_id s) d1 (task_creation_time s)
           \<and> task_creation_time_wall s'
               = AList.update (Suc (new_task_id s)) d2 (task_creation_time_wall s)"
proof -
  obtain ts w1 where p1: "process_time L w = (ts, w1)"
    by (cases "process_time L w")
  obtain tw w2 where p2: "time_time L w1 = (tw, w2)"
    by (cases "time_time L w1")
  have "\<exists>s' w'. add_task_loop L ac (data_x t) (data_y t) (np_unique (data_y t)) (s, w2)
             = (Inr (), s', w')
           \<and> map fst (rehearsal s')
               = map fst (rehearsal s)
                 @ filter (\<lambda>k. k \<notin> fst ` set (rehearsal s)) (np_unique (data_y t))
           \<and> task_creation_time s' = task_creation_time s
           \<and> task_creation_time_wall s' = task_creation_time_wall s"
    using H len np_unique_distinct by (rule add_task_loop_ok)
  then obtain s1 w3 where
    l: "add_task_loop L ac (data_x t) (data_y t) (np_unique (data_y t)) (s, w2) = (Inr (), s1, w3)"
    and t1: "task_creation_time s1 = task_creation_time s"
    and t2: "task_creation_time_wall s1 = task_creation_time_wall s"
    by blast
  obtain te w4 where p3: "process_time L w3 = (te, w4)"
    by (cases "process_time L w3")
  obtain twe w5 where p4: "time_time L w4 = (twe, w5)"
    by (cases "time_time L w4")
  have n1: "new_task_id s1 = new_task_id s"
    by (simp add: new_task_id_def t1)
  have n2: "length (AList.update (new_task_id s) (te - ts) (task_creation_time s))
              = Suc (new_task_id s)"
    using new by (simp add: length_update_new new_task_id_def)
  have "add_task L ac t (s, w)
      = (Inr (),
         s1\<lparr>task_creation_time :=
               AList.update (new_task_id s) (te - ts) (task_creation_time s),
             task_creation_time_wall :=
               AList.update (Suc (new_task_id s)) (twe - tw) (task_creation_time_wall s)\<rparr>,
         w5)"
    using n2 by (simp add: add_task.simps p1 p2 l p3 p4 Let_def n1 t1 t2 new_task_id_def
                  del: add_task_loop.simps)
  then show ?thesis
    by (intro exI [of _ "s1\<lparr>task_creation_time :=
               AList.update (new_task_id s) (te - ts) (task_creation_time s),
             task_creation_time_wall :=
               AList.update (Suc (new_task_id s)) (twe - tw) (task_creation_time_wall s)\<rparr>"]
          exI [of _ w5] exI [of _ "te - ts"] exI [of _ "twe - tw"]) simp
qed

end
